theory Spec2Isabelle
  imports Complex_Main "HOL-Library.Stream"
begin

section \<open>Dream Market: entity model\<close>

text \<open>
  A shallow embedding of \<^verbatim>\<open>dream_market.py\<close>. Python integers are \<open>int\<close>, strings are
  \<open>string\<close>, dictionaries are maps (or association lists where the order of the entries is
  read), objects are records passed and returned explicitly.

  Python computes \<^verbatim>\<open>int(x / 2)\<close>, \<^verbatim>\<open>int(x * 2.5)\<close> and the like on floats. The model
  computes them on reals: \<open>py_int\<close> is the truncation toward zero that \<^verbatim>\<open>int()\<close> applies.
  For a stat \<open>x\<close> with \<open>\<bar>x\<bar> \<le> 2 ^ 53\<close> the quotient \<open>x / 2\<close> is a double, so the halvings of the
  hit, evasion and escape rolls are exact in the code and the model agrees with it; beyond
  that range the code rounds, and for stats too large for a double it raises
  \<^verbatim>\<open>OverflowError\<close>, which the model does not have. The damage products are rounded by the
  code where the model is exact; on the stats of the game's classes and enemies both agree
  where \<^verbatim>\<open>random.random()\<close> returns 0, as it does in the fixed worlds below. The
  properties stated for all inputs therefore bound the stats
  by \<open>2 ^ 53\<close> wherever a halved stat decides the outcome, and state no damage value.
\<close>

definition py_int :: "real \<Rightarrow> int" where
  "py_int q = (if 0 \<le> q then \<lfloor>q\<rfloor> else \<lceil>q\<rceil>)"

subsection \<open>Strings\<close>

text \<open>
  The string methods the combat prompt uses, on 8-bit characters: \<^verbatim>\<open>str.isspace\<close>,
  \<^verbatim>\<open>str.lower\<close>, \<^verbatim>\<open>str.strip\<close>, \<^verbatim>\<open>str.split\<close> without argument, \<^verbatim>\<open>str.join\<close>
  and \<^verbatim>\<open>str.startswith\<close>, with Python's behaviour on the ASCII range.
\<close>

definition isspace :: "char \<Rightarrow> bool" where
  "isspace c = (c \<in> set [CHR 0x09, CHR 0x0A, CHR 0x0B, CHR 0x0C, CHR 0x0D,
                          CHR 0x1C, CHR 0x1D, CHR 0x1E, CHR 0x1F, CHR 0x20])"

definition lower_char :: "char \<Rightarrow> char" where
  "lower_char c =
     (case map_of (zip ''ABCDEFGHIJKLMNOPQRSTUVWXYZ'' ''abcdefghijklmnopqrstuvwxyz'') c of
        Some d \<Rightarrow> d
      | None \<Rightarrow> c)"

definition lower :: "string \<Rightarrow> string" where
  "lower s = map lower_char s"

definition strip :: "string \<Rightarrow> string" where
  "strip s = rev (dropWhile isspace (rev (dropWhile isspace s)))"

text \<open>\<open>tokens_from cur s\<close>: the words of \<open>s\<close>, \<open>cur\<close> being the word read so far.\<close>

fun tokens_from :: "string \<Rightarrow> string \<Rightarrow> string list" where
  "tokens_from cur [] = (if cur = [] then [] else [cur])"
| "tokens_from cur (c # cs) =
     (if isspace c then (if cur = [] then tokens_from [] cs else cur # tokens_from [] cs)
      else tokens_from (cur @ [c]) cs)"

definition split :: "string \<Rightarrow> string list" where
  "split s = tokens_from [] s"

fun join :: "string \<Rightarrow> string list \<Rightarrow> string" where
  "join sep [] = []"
| "join sep [x] = x"
| "join sep (x # y # ys) = x @ sep @ join sep (y # ys)"

definition startswith :: "string \<Rightarrow> string \<Rightarrow> bool" where
  "startswith s pre = (take (length pre) s = pre)"

subsection \<open>Items\<close>

datatype use_fn = Heal_potion_use | Sanity_potion_use | Fear_shard_use

record item =
  i_name :: string
  i_desc :: string
  i_use_fn :: "use_fn option"
  stackable :: bool

subsection \<open>Player\<close>

record player =
  name :: string
  cls :: string
  class_name :: string
  max_health :: int
  health :: int
  sanity :: int
  strength :: int
  agility :: int
  magic :: int
  level :: int
  xp :: int
  inventory :: "item list"
  equipped :: "item option"
  alive :: bool
  flags :: "string \<rightharpoonup> int"
  class_resource :: "string \<rightharpoonup> bool"

text \<open>\<^verbatim>\<open>Player.modify_health\<close>\<close>

definition modify_health :: "int \<Rightarrow> player \<Rightarrow> player" where
  "modify_health amt p =
     (let p1 = p\<lparr>health := max 0 (min (max_health p) (health p + amt))\<rparr>
      in if health p1 = 0 then p1\<lparr>alive := False\<rparr> else p1)"

text \<open>\<^verbatim>\<open>Player.modify_sanity\<close>\<close>

definition modify_sanity :: "int \<Rightarrow> player \<Rightarrow> player" where
  "modify_sanity amt p =
     (let p1 = p\<lparr>sanity := sanity p + amt\<rparr>
      in if sanity p1 \<le> - 50 then p1\<lparr>alive := False\<rparr> else p1)"

text \<open>\<^verbatim>\<open>Player.__init__\<close>, from an entry of the class table.\<close>

record player_class =
  c_key :: string
  c_name :: string
  c_health :: int
  c_strength :: int
  c_agility :: int
  c_magic :: int
  c_sanity :: "int option"
  c_desc :: string

definition new_player :: "string \<Rightarrow> player_class \<Rightarrow> player" where
  "new_player nm c =
     \<lparr>name = nm, cls = c_key c, class_name = c_name c,
      max_health = c_health c, health = c_health c,
      sanity = (case c_sanity c of Some s \<Rightarrow> s | None \<Rightarrow> 100),
      strength = c_strength c, agility = c_agility c, magic = c_magic c,
      level = 1, xp = 0, inventory = [], equipped = None, alive = True,
      flags = Map.empty, class_resource = Map.empty\<rparr>"

definition night_surgeon :: player_class where
  "night_surgeon = \<lparr>c_key = ''night_surgeon'', c_name = ''Night Surgeon'',
     c_health = 90, c_strength = 8, c_agility = 6, c_magic = 6, c_sanity = Some 80,
     c_desc = ''Extracts emotional items from defeated nightmares (Fear Shard, Hope Seed).''\<rparr>"

definition lucid_magician :: player_class where
  "lucid_magician = \<lparr>c_key = ''lucid_magician'', c_name = ''Lucid Magician'',
     c_health = 70, c_strength = 4, c_agility = 7, c_magic = 12, c_sanity = Some 90,
     c_desc = ''Reality-bending actions like rewrite rule: enemy misses next turn.''\<rparr>"

definition insomniac :: player_class where
  "insomniac = \<lparr>c_key = ''insomniac'', c_name = ''Insomniac'',
     c_health = 60, c_strength = 10, c_agility = 8, c_magic = 4, c_sanity = Some 120,
     c_desc = ''Has powerful abilities but loses sanity instead of health.''\<rparr>"

definition broker_novice :: player_class where
  "broker_novice = \<lparr>c_key = ''broker_novice'', c_name = ''Broker (Novice)'',
     c_health = 80, c_strength = 6, c_agility = 8, c_magic = 6, c_sanity = Some 100,
     c_desc = ''Balanced starter: negotiates and resells dreams.''\<rparr>"

definition night_watch :: player_class where
  "night_watch = \<lparr>c_key = ''night_watch'', c_name = ''Night Watch'',
     c_health = 100, c_strength = 9, c_agility = 5, c_magic = 3, c_sanity = Some 100,
     c_desc = ''Tough guard-like class: excels at physical combat.''\<rparr>"

definition somnomancer :: player_class where
  "somnomancer = \<lparr>c_key = ''somnomancer'', c_name = ''Somnomancer'',
     c_health = 65, c_strength = 3, c_agility = 6, c_magic = 11, c_sanity = Some 95,
     c_desc = ''Dream-focused mage with higher magic stat.''\<rparr>"

definition CLASSES :: "player_class list" where
  "CLASSES = [night_surgeon, lucid_magician, insomniac, broker_novice, night_watch, somnomancer]"

subsection \<open>Enemy\<close>

datatype special_move = Nightmare_bellow | Dream_snare

text \<open>
  The \<^verbatim>\<open>special\<close> dictionary of an enemy is an association list in insertion order:
  \<^verbatim>\<open>random.choice(list(self.special.items()))\<close> indexes it.
\<close>

record enemy =
  e_name :: string
  hp :: int
  max_hp :: int
  e_strength :: int
  e_agility :: int
  e_magic :: int
  e_desc :: string
  difficulty :: int
  special :: "(string \<times> special_move) list"
  e_alive :: bool

definition new_enemy ::
  "string \<Rightarrow> int \<Rightarrow> int \<Rightarrow> int \<Rightarrow> int \<Rightarrow> string \<Rightarrow> int \<Rightarrow> (string \<times> special_move) list \<Rightarrow> enemy" where
  "new_enemy nm h s a m d diff sp =
     \<lparr>e_name = nm, hp = h, max_hp = h, e_strength = s, e_agility = a, e_magic = m,
      e_desc = d, difficulty = diff, special = sp, e_alive = True\<rparr>"

text \<open>\<^verbatim>\<open>Enemy.take_damage\<close>\<close>

definition take_damage :: "int \<Rightarrow> enemy \<Rightarrow> enemy" where
  "take_damage amount e =
     (let e1 = e\<lparr>hp := max 0 (hp e - amount)\<rparr>
      in if hp e1 = 0 then e1\<lparr>e_alive := False\<rparr> else e1)"

section \<open>Narration, input and randomness\<close>

text \<open>
  Every \<^verbatim>\<open>print\<close> of the combat code is an event carrying the values interpolated into
  the message; the wording and the line wrapping are not modelled.
\<close>

datatype event =
    Prompt_text string
  | Input_interrupted
  | Combat_banner string string
  | Player_status player
  | Enemy_hp_line string int int
  | Options_line
  | Not_valid_none
  | Use_what
  | No_such_item string
  | Elixir_text int
  | Mist_text int
  | Shard_text string int
  | Shard_inert
  | Nothing_happens string
  | Inventory_empty
  | Inventory_lines "(string \<times> nat \<times> string) list"
  | Escape_ok
  | Escape_failed
  | Not_valid_command
  | Critical_strike
  | Hit_enemy string int
  | Attack_misses
  | Brace
  | Extract_blocked
  | Extract_ok
  | Extract_falters
  | Rewrite_blocked
  | Rewrite_ok
  | Rewrite_fails
  | Sanity_refused
  | Onslaught int int
  | Dream_spark int
  | Nothing_notable
  | Rewrite_holds
  | Enemy_hits string int
  | Enemy_misses string
  | Bellow_text string int
  | Snare_text string int
  | Unmade
  | Defeated string
  | Level_up int
  | Drop_text string

text \<open>
  Standard input is the list of the lines still to come (the end of the list is the end of
  input); only \<open>prompt\<close> reads it. The rest of the world outside the program is a record:
  the results of the successive calls of \<^verbatim>\<open>random.randint\<close>,
  \<^verbatim>\<open>random.random\<close> and \<^verbatim>\<open>random.choice\<close> (as the index drawn), and what has been
  printed so far. \<^verbatim>\<open>random.randint(1, d)\<close> draws from \<open>1..d\<close> and \<^verbatim>\<open>random.random()\<close>
  from \<open>[0, 1)\<close>; the model takes whatever the streams hold.
\<close>

record world =
  dice :: "int stream"
  fracs :: "real stream"
  picks :: "nat stream"
  out :: "event list"

definition say :: "event \<Rightarrow> world \<Rightarrow> world" where
  "say e w = w\<lparr>out := out w @ [e]\<rparr>"

text \<open>\<^verbatim>\<open>roll(d)\<close>, that is \<^verbatim>\<open>random.randint(1, d)\<close>, and \<^verbatim>\<open>random.randint(a, b)\<close>.\<close>

definition randint :: "world \<Rightarrow> int \<times> world" where
  "randint w = (shd (dice w), w\<lparr>dice := stl (dice w)\<rparr>)"

definition roll :: "int \<Rightarrow> world \<Rightarrow> int \<times> world" where
  "roll d w = randint w"

definition random_random :: "world \<Rightarrow> real \<times> world" where
  "random_random w = (shd (fracs w), w\<lparr>fracs := stl (fracs w)\<rparr>)"

text \<open>\<^verbatim>\<open>random.choice\<close> on a list that is not empty.\<close>

definition random_choice :: "'a list \<Rightarrow> world \<Rightarrow> 'a \<times> world" where
  "random_choice xs w = (xs ! (shd (picks w) mod length xs), w\<lparr>picks := stl (picks w)\<rparr>)"

datatype exn = IndexError | KeyError | SystemExit

datatype 'a result = Return 'a | Raise exn

text \<open>
  \<^verbatim>\<open>prompt(options, text)\<close>: prints the text if there is one, reads a line and strips it;
  at the end of input it prints a notice and calls \<^verbatim>\<open>sys.exit\<close>.
\<close>

definition prompt ::
  "string list option \<Rightarrow> string option \<Rightarrow> string list \<Rightarrow> world \<Rightarrow> string option result \<times> string list \<times> world" where
  "prompt options text ins w =
     (let w1 = (case text of Some t \<Rightarrow> if t \<noteq> [] then say (Prompt_text t) w else w | None \<Rightarrow> w)
      in case ins of
           [] \<Rightarrow> (Raise SystemExit, [], say Input_interrupted w1)
         | line # rest \<Rightarrow>
             (let choice = strip line
              in case options of
                   None \<Rightarrow> (Return (Some choice), rest, w1)
                 | Some os \<Rightarrow>
                     if lower choice \<in> set (map lower os) then (Return (Some choice), rest, w1)
                     else (Return None, rest, w1)))"

section \<open>Items and inventory\<close>

text \<open>\<^verbatim>\<open>heal_potion_use\<close>, \<^verbatim>\<open>sanity_potion_use\<close>, \<^verbatim>\<open>fear_shard_use\<close>: the narration returned, the player and the enemy.\<close>

definition heal_potion_use :: "player \<Rightarrow> enemy option \<Rightarrow> event \<times> player \<times> enemy option" where
  "heal_potion_use p e = (let amt = 30 in (Elixir_text amt, modify_health amt p, e))"

definition sanity_potion_use :: "player \<Rightarrow> enemy option \<Rightarrow> event \<times> player \<times> enemy option" where
  "sanity_potion_use p e = (let amt = 25 in (Mist_text amt, modify_sanity amt p, e))"

definition fear_shard_use :: "player \<Rightarrow> enemy option \<Rightarrow> event \<times> player \<times> enemy option" where
  "fear_shard_use p e =
     (case e of
        Some en \<Rightarrow>
          (let dmg = 20 + py_int (real_of_int (magic p) * 0.5)
           in (Shard_text (e_name en) dmg, p, Some (take_damage dmg en)))
      | None \<Rightarrow> (Shard_inert, p, None))"

text \<open>\<^verbatim>\<open>Item.use\<close>\<close>

definition use :: "item \<Rightarrow> player \<Rightarrow> enemy option \<Rightarrow> event \<times> player \<times> enemy option" where
  "use it p e =
     (case i_use_fn it of
        Some Heal_potion_use \<Rightarrow> heal_potion_use p e
      | Some Sanity_potion_use \<Rightarrow> sanity_potion_use p e
      | Some Fear_shard_use \<Rightarrow> fear_shard_use p e
      | None \<Rightarrow> (Nothing_happens (i_name it), p, e))"

definition Dream_Elixir :: item where
  "Dream_Elixir = \<lparr>i_name = ''Dream Elixir'', i_desc = ''Restores 30 HP.'',
     i_use_fn = Some Heal_potion_use, stackable = True\<rparr>"

definition Calm_Mist :: item where
  "Calm_Mist = \<lparr>i_name = ''Calm Mist'', i_desc = ''Restores 25 Sanity.'',
     i_use_fn = Some Sanity_potion_use, stackable = True\<rparr>"

definition Fear_Shard :: item where
  "Fear_Shard = \<lparr>i_name = ''Fear Shard'', i_desc = ''A sliver of dread. Use in combat to damage enemies.'',
     i_use_fn = Some Fear_shard_use, stackable = True\<rparr>"

definition Hope_Seed :: item where
  "Hope_Seed = \<lparr>i_name = ''Hope Seed'', i_desc = ''A tiny mote of hope. Can pacify weak nightmares.'',
     i_use_fn = None, stackable = True\<rparr>"

definition Broker_Ledger :: item where
  "Broker_Ledger = \<lparr>i_name = ''Broker Ledger'', i_desc = ''Record of transactions; required for one ending.'',
     i_use_fn = None, stackable = False\<rparr>"

text \<open>\<^verbatim>\<open>ITEMS[name]\<close>, for the names the combat code looks up.\<close>

definition ITEMS :: "string \<rightharpoonup> item" where
  "ITEMS = map_of [(''Dream Elixir'', Dream_Elixir), (''Calm Mist'', Calm_Mist),
     (''Fear Shard'', Fear_Shard), (''Hope Seed'', Hope_Seed), (''Broker Ledger'', Broker_Ledger)]"

text \<open>\<^verbatim>\<open>Inventory.add\<close>, \<^verbatim>\<open>Inventory.remove\<close>, \<^verbatim>\<open>Inventory.list\<close>\<close>

definition inventory_add :: "item \<Rightarrow> item list \<Rightarrow> item list" where
  "inventory_add it its = its @ [it]"

fun inventory_remove :: "string \<Rightarrow> item list \<Rightarrow> item option \<times> item list" where
  "inventory_remove nm [] = (None, [])"
| "inventory_remove nm (it # its) =
     (if lower (i_name it) = lower nm then (Some it, its)
      else (let (r, rest) = inventory_remove nm its in (r, it # rest)))"

fun bump :: "string \<Rightarrow> (string \<times> nat) list \<Rightarrow> (string \<times> nat) list" where
  "bump nm [] = [(nm, 1)]"
| "bump nm ((k, c) # kcs) = (if k = nm then (k, c + 1) # kcs else (k, c) # bump nm kcs)"

definition first_desc :: "string \<Rightarrow> item list \<Rightarrow> string" where
  "first_desc nm its = (case filter (\<lambda>it. i_name it = nm) its of [] \<Rightarrow> [] | it # _ \<Rightarrow> i_desc it)"

definition inventory_list :: "item list \<Rightarrow> event" where
  "inventory_list its =
     (if its = [] then Inventory_empty
      else Inventory_lines
             (map (\<lambda>(nm, cnt). (nm, cnt, first_desc nm its))
                  (foldl (\<lambda>counts it. bump (i_name it) counts) [] its)))"

section \<open>Progression\<close>

text \<open>
  \<^verbatim>\<open>Player.gain_xp\<close>: the loop, with the level-up messages it prints, then the method.
  The loop ends for every player: below level 1 each round raises the level, from level 1
  on each round takes at least 100 from a positive \<open>xp\<close>.
\<close>

function level_ups :: "player \<Rightarrow> player \<times> event list" where
  "level_ups p =
     (if xp p \<ge> 100 * level p then
        (let p1 = p\<lparr>xp := xp p - 100 * level p, level := level p + 1,
                     max_health := max_health p + 10, strength := strength p + 1,
                     agility := agility p + 1, magic := magic p + 1\<rparr>;
             (p2, evs) = level_ups p1
         in (p2, Level_up (level p1) # evs))
      else (p, []))"
  by pat_completeness auto
termination
  by (relation "measures [\<lambda>p. nat (1 - level p), \<lambda>p. nat (xp p)]") auto

definition gain_xp :: "int \<Rightarrow> player \<Rightarrow> player \<times> event list" where
  "gain_xp amount p = level_ups (p\<lparr>xp := xp p + amount\<rparr>)"

section \<open>Enemy moves\<close>

text \<open>\<^verbatim>\<open>Enemy.attack_player\<close>: the narration returned, the player and the world.\<close>

definition attack_player :: "enemy \<Rightarrow> player \<Rightarrow> world \<Rightarrow> event \<times> player \<times> world" where
  "attack_player e p w =
     (let (r1, w1) = roll 20 w;
          hit_roll = r1 + py_int (real_of_int (e_agility e) / 2);
          (r2, w2) = roll 20 w1;
          evade = r2 + py_int (real_of_int (agility p) / 2)
      in if hit_roll \<ge> evade then
           (let (u, w3) = random_random w2;
                base = py_int (real_of_int (e_strength e) * (1 + u * 0.5))
            in (Enemy_hits (e_name e) base, modify_health (- base) p, w3))
         else (Enemy_misses (e_name e), p, w2))"

text \<open>\<^verbatim>\<open>nightmare_bellow\<close> and \<^verbatim>\<open>dream_snare\<close>\<close>

definition nightmare_bellow :: "enemy \<Rightarrow> player \<Rightarrow> event \<times> player" where
  "nightmare_bellow e p = (let val = 10 + e_magic e in (Bellow_text (e_name e) val, modify_sanity (- val) p))"

definition dream_snare :: "enemy \<Rightarrow> player \<Rightarrow> event \<times> player" where
  "dream_snare e p = (let loss = 2 in (Snare_text (e_name e) loss, p\<lparr>agility := max 1 (agility p - loss)\<rparr>))"

definition effect :: "special_move \<Rightarrow> enemy \<Rightarrow> player \<Rightarrow> event \<times> player" where
  "effect m e p = (case m of Nightmare_bellow \<Rightarrow> nightmare_bellow e p | Dream_snare \<Rightarrow> dream_snare e p)"

text \<open>\<^verbatim>\<open>Enemy.special_move\<close>: \<open>None\<close> when the enemy has no special move.\<close>

definition special_move :: "enemy \<Rightarrow> player \<Rightarrow> world \<Rightarrow> (event \<times> player) option \<times> world" where
  "special_move e p w =
     (if special e = [] then (None, w)
      else (let ((nm, m), w1) = random_choice (special e) w in (Some (effect m e p), w1)))"

section \<open>Combat\<close>

record combat =
  player :: player
  enemy :: enemy
  turn_count :: int
  rewrite_effects :: "string \<rightharpoonup> bool"

definition new_combat :: "player \<Rightarrow> enemy \<Rightarrow> combat" where
  "new_combat p e = \<lparr>player = p, enemy = e, turn_count = 0, rewrite_effects = Map.empty\<rparr>"

text \<open>\<^verbatim>\<open>Combat.show_status\<close>\<close>

definition show_status :: "combat \<Rightarrow> world \<Rightarrow> world" where
  "show_status c w =
     say (Enemy_hp_line (e_name (enemy c)) (hp (enemy c)) (max_hp (enemy c)))
       (say (Player_status (player c))
          (say (Combat_banner (name (player c)) (e_name (enemy c))) w))"

text \<open>\<^verbatim>\<open>Combat.player_attack\<close>\<close>

definition player_attack :: "combat \<Rightarrow> world \<Rightarrow> string option \<times> combat \<times> world" where
  "player_attack c w =
     (let (r1, w1) = roll 20 w;
          atk_roll = r1 + py_int (real_of_int (strength (player c)) / 2);
          (r2, w2) = roll 20 w1;
          def_roll = r2 + py_int (real_of_int (e_agility (enemy c)) / 2)
      in if atk_roll \<ge> def_roll then
           (let (u, w3) = random_random w2;
                base = py_int (real_of_int (strength (player c)) * (1 + u * 0.5));
                (crit, w4) = (if startswith (lower (class_name (player c))) ''lucid''
                              then (let (r3, w') = roll 100 w3 in (r3 < 20, w'))
                              else (False, w3));
                base' = (if crit then py_int (real_of_int base * 1.8) else base);
                w5 = (if crit then say Critical_strike w4 else w4)
            in (None, c\<lparr>enemy := take_damage base' (enemy c)\<rparr>,
                say (Hit_enemy (e_name (enemy c)) base') w5))
         else (None, c, say Attack_misses w2))"

text \<open>\<^verbatim>\<open>Combat.player_defend\<close>\<close>

definition player_defend :: "combat \<Rightarrow> world \<Rightarrow> string option \<times> combat \<times> world" where
  "player_defend c w =
     (let old = agility (player c);
          p1 = (player c)\<lparr>agility := agility (player c) + 4\<rparr>;
          p2 = p1\<lparr>flags := (flags p1)(''defend_tmp'' \<mapsto> old)\<rparr>
      in (None, c\<lparr>player := p2\<rparr>, say Brace w))"

text \<open>\<^verbatim>\<open>Combat.player_special\<close>\<close>

definition player_special :: "combat \<Rightarrow> world \<Rightarrow> string option result \<times> combat \<times> world" where
  "player_special c w =
     (let p = player c in
      if cls p = ''night_surgeon'' then
        (if ''extracted'' \<in> dom (class_resource p) then (Return None, c, say Extract_blocked w)
         else (let (r, w1) = roll 20 w in
               if r + magic p \<ge> 15 then
                 (case ITEMS ''Fear Shard'' of
                    None \<Rightarrow> (Raise KeyError, c, w1)
                  | Some it \<Rightarrow>
                      (Return None,
                       c\<lparr>player := p\<lparr>inventory := inventory_add it (inventory p),
                                      class_resource := (class_resource p)(''extracted'' \<mapsto> True)\<rparr>\<rparr>,
                       say Extract_ok w1))
               else (Return None, c, say Extract_falters w1)))
      else if cls p = ''lucid_magician'' then
        (if ''rewritten'' \<in> dom (rewrite_effects c) then (Return None, c, say Rewrite_blocked w)
         else (let (r, w1) = roll 20 w in
               if r + magic p \<ge> 15 then
                 (Return None, c\<lparr>rewrite_effects := (rewrite_effects c)(''enemy_miss_next'' \<mapsto> True)\<rparr>,
                  say Rewrite_ok w1)
               else (Return None, c, say Rewrite_fails w1)))
      else if cls p = ''insomniac'' then
        (let cost = 20 in
         if sanity p - cost \<le> - 50 then (Return None, c, say Sanity_refused w)
         else (let p1 = modify_sanity (- cost) p;
                   dmg = py_int (real_of_int (strength p1) * 2.5)
               in (Return None, c\<lparr>player := p1, enemy := take_damage dmg (enemy c)\<rparr>,
                   say (Onslaught dmg cost) w)))
      else
        (if magic p \<ge> 10 then
           (let (r, w1) = roll 20 w in
            if r + magic p \<ge> 12 then
              (let dmg = py_int (real_of_int (magic p) * 1.5)
               in (Return None, c\<lparr>enemy := take_damage dmg (enemy c)\<rparr>, say (Dream_spark dmg) w1))
            else (Return None, c, say Nothing_notable w1))
         else (Return None, c, say Nothing_notable w)))"

text \<open>
  The body of \<^verbatim>\<open>Combat.player_turn\<close> from \<^verbatim>\<open>tokens = choice.split()\<close> on:
  \<^verbatim>\<open>tokens[0]\<close> raises \<^verbatim>\<open>IndexError\<close> when the stripped line has no word.
\<close>

definition player_command :: "string \<Rightarrow> combat \<Rightarrow> world \<Rightarrow> string option result \<times> combat \<times> world" where
  "player_command choice c w =
     (let tokens = split choice in
      case tokens of
        [] \<Rightarrow> (Raise IndexError, c, w)
      | t0 # ts \<Rightarrow>
          (let cmd = lower t0 in
           if cmd = ''attack'' then (let (r, c1, w1) = player_attack c w in (Return r, c1, w1))
           else if cmd = ''defend'' then (let (r, c1, w1) = player_defend c w in (Return r, c1, w1))
           else if cmd = ''use'' then
             (if length tokens = 1 then (Return None, c, say Use_what w)
              else (let item_name = join '' '' ts;
                        (found, rest) = inventory_remove item_name (inventory (player c));
                        c1 = c\<lparr>player := (player c)\<lparr>inventory := rest\<rparr>\<rparr>
                    in case found of
                         None \<Rightarrow> (Return None, c1, say (No_such_item item_name) w)
                       | Some it \<Rightarrow>
                           (case use it (player c1) (Some (enemy c1)) of
                              (text, p', e') \<Rightarrow>
                                (Return None,
                                 c1\<lparr>player := p', enemy := (case e' of Some en \<Rightarrow> en | None \<Rightarrow> enemy c1)\<rparr>,
                                 say text w))))
           else if cmd = ''inventory'' then (Return None, c, say (inventory_list (inventory (player c))) w)
           else if cmd = ''special'' then player_special c w
           else if cmd = ''stats'' then (Return None, c, say (Player_status (player c)) w)
           else if cmd = ''run'' then
             (let (r1, w1) = roll 20 w;
                  chance = r1 + py_int (real_of_int (agility (player c)) / 2);
                  (r2, w2) = roll 20 w1;
                  escape = r2 + py_int (real_of_int (e_agility (enemy c)) / 2)
              in if chance > escape then (Return (Some ''escaped''), c, say Escape_ok w2)
                 else (Return None, c, say Escape_failed w2))
           else (Return None, c, say Not_valid_command w)))"

text \<open>\<^verbatim>\<open>Combat.player_turn\<close>: it calls itself again when \<^verbatim>\<open>prompt\<close> returns \<^verbatim>\<open>None\<close>.\<close>

function player_turn ::
  "combat \<Rightarrow> string list \<Rightarrow> world \<Rightarrow> string option result \<times> combat \<times> string list \<times> world" where
  "player_turn c ins w =
     (case prompt None (Some ''What do you do? (type command)'') ins (say Options_line w) of
        (Raise x, ins1, w1) \<Rightarrow> (Raise x, c, ins1, w1)
      | (Return None, ins1, w1) \<Rightarrow> player_turn c ins1 (say Not_valid_none w1)
      | (Return (Some choice), ins1, w1) \<Rightarrow>
          (case player_command choice c w1 of (r, c2, w2) \<Rightarrow> (r, c2, ins1, w2)))"
  by pat_completeness auto
termination
  by (relation "measure (\<lambda>(c, ins, w). length ins)")
     (auto simp add: prompt_def Let_def split: list.splits)

declare player_turn.simps [simp del]

text \<open>\<^verbatim>\<open>Combat.enemy_turn\<close>\<close>

definition enemy_turn :: "combat \<Rightarrow> world \<Rightarrow> combat \<times> world" where
  "enemy_turn c w =
     (if \<not> e_alive (enemy c) then (c, w)
      else if rewrite_effects c ''enemy_miss_next'' = Some True then
        (c\<lparr>rewrite_effects := (rewrite_effects c)(''enemy_miss_next'' := None)\<rparr>, say Rewrite_holds w)
      else
        (let (go, w1) = (if special (enemy c) \<noteq> []
                         then (let (r, w') = roll 100 w in (r < 30, w'))
                         else (False, w))
         in case (if go then special_move (enemy c) (player c) w1 else (None, w1)) of
              (Some (text, p'), w2) \<Rightarrow> (c\<lparr>player := p'\<rparr>, say text w2)
            | (None, w2) \<Rightarrow>
                (case attack_player (enemy c) (player c) w2 of
                   (text, p', w3) \<Rightarrow> (c\<lparr>player := p'\<rparr>, say text w3))))"

text \<open>
  \<^verbatim>\<open>Combat.run\<close>: first the \<^verbatim>\<open>while\<close> loop, whose result is \<open>Some r\<close> when the method returns
  or raises inside the loop and \<open>None\<close> when the loop is left; then the method. Each round
  reads at least one line of input, so the loop ends on every finite input.
\<close>

definition revert_defend :: "combat \<Rightarrow> combat" where
  "revert_defend c =
     (case flags (player c) ''defend_tmp'' of
        Some old \<Rightarrow> c\<lparr>player := (player c)\<lparr>agility := old,
                                           flags := (flags (player c))(''defend_tmp'' := None)\<rparr>\<rparr>
      | None \<Rightarrow> c)"

function run_loop ::
  "combat \<Rightarrow> string list \<Rightarrow> world \<Rightarrow> string option result option \<times> combat \<times> string list \<times> world" where
  "run_loop c ins w =
     (if alive (player c) \<and> e_alive (enemy c) then
        (case player_turn c ins (show_status c w) of
           (Raise x, c1, ins1, w1) \<Rightarrow> (Some (Raise x), c1, ins1, w1)
         | (Return res, c1, ins1, w1) \<Rightarrow>
             if res = Some ''escaped'' then (Some (Return (Some ''escaped'')), c1, ins1, w1)
             else
               (let c2 = revert_defend c1
                in if \<not> e_alive (enemy c2) then (None, c2, ins1, w1)
                   else (case enemy_turn c2 w1 of
                           (c3, w3) \<Rightarrow>
                             if \<not> alive (player c3) then (None, c3, ins1, w3)
                             else run_loop (c3\<lparr>turn_count := turn_count c3 + 1\<rparr>) ins1 w3)))
      else (None, c, ins, w))"
  by pat_completeness auto
termination
proof (relation "measure (\<lambda>(c, ins, w). length ins)")
  show "wf (measure (\<lambda>(c :: combat, ins :: string list, w :: world). length ins))"
    by simp
next
  fix c :: combat and ins :: "string list" and w :: world
    and r :: "string option result" and res :: "string option"
    and y :: "combat \<times> string list \<times> world"
    and c1 :: combat and z :: "string list \<times> world" and ins1 :: "string list" and w1 :: world
    and c3 :: combat and w3 :: world
  assume "(r, y) = player_turn c ins (show_status c w)" and "r = Return res"
    and "(c1, z) = y" and "(ins1, w1) = z"
  then have "player_turn c ins (show_status c w) = (Return res, c1, ins1, w1)"
    by simp
  then have "length ins1 < length ins"
    by (subst (asm) player_turn.simps)
       (auto simp add: prompt_def Let_def split: list.splits prod.splits)
  then show "((c3\<lparr>turn_count := turn_count c3 + 1\<rparr>, ins1, w3), c, ins, w)
               \<in> measure (\<lambda>(c, ins, w). length ins)"
    by simp
qed

declare run_loop.simps [simp del]

definition run ::
  "combat \<Rightarrow> string list \<Rightarrow> world \<Rightarrow> string option result \<times> combat \<times> string list \<times> world" where
  "run c ins w =
     (case run_loop c ins w of
        (Some r, c1, ins1, w1) \<Rightarrow> (r, c1, ins1, w1)
      | (None, c1, ins1, w1) \<Rightarrow>
          if \<not> alive (player c1) then (Return (Some ''player_dead''), c1, ins1, say Unmade w1)
          else if \<not> e_alive (enemy c1) then
            (let w2 = say (Defeated (e_name (enemy c1))) w1;
                 (r, w3) = randint w2;
                 (p1, evs) = gain_xp (20 * difficulty (enemy c1) + r) (player c1);
                 w4 = w3\<lparr>out := out w3 @ evs\<rparr>;
                 (r2, w5) = roll 100 w4
             in if r2 < 30 * difficulty (enemy c1) then
                  (let (drop, w6) = random_choice [''Fear Shard'', ''Hope Seed''] w5
                   in case ITEMS drop of
                        None \<Rightarrow> (Raise KeyError, c1\<lparr>player := p1\<rparr>, ins1, w6)
                      | Some it \<Rightarrow>
                          (Return (Some ''enemy_dead''),
                           c1\<lparr>player := p1\<lparr>inventory := inventory_add it (inventory p1)\<rparr>\<rparr>,
                           ins1, say (Drop_text drop) w6))
                else (Return (Some ''enemy_dead''), c1\<lparr>player := p1\<rparr>, ins1, w5))
          else (Return None, c1, ins1, w1))"

section \<open>Encounters and fixed dice\<close>

text \<open>The enemies that the entries of \<^verbatim>\<open>AREAS\<close> create.\<close>

definition Pixel_Wraith :: enemy where
  "Pixel_Wraith = new_enemy ''Pixel Wraith'' 30 6 8 4 ''A jagged ghost of a corrupted sprite.'' 1
     [(''bellow'', Nightmare_bellow)]"

definition Token_Thief :: enemy where
  "Token_Thief = new_enemy ''Token Thief'' 35 7 9 3 ''A quick-handed dream that steals small comforts.'' 1 []"

definition Somber_Vendor :: enemy where
  "Somber_Vendor = new_enemy ''Somber Vendor'' 40 5 6 8 ''A vendor whose wares sadden those who linger.'' 2
     [(''snare'', Dream_snare)]"

definition Sleep_Poltergeist :: enemy where
  "Sleep_Poltergeist = new_enemy ''Sleep-Poltergeist'' 45 9 5 6 ''A heavy-handed nightmare that throws furniture.'' 2 []"

definition Atrium_Warden :: enemy where
  "Atrium_Warden = new_enemy ''Atrium Warden'' 75 12 8 10 ''A guardian formed of contracts and lost promises.'' 3
     [(''bellow'', Nightmare_bellow), (''snare'', Dream_snare)]"

text \<open>
  A world with a fixed random source: \<^verbatim>\<open>random.randint\<close> returns the given numbers in turn
  and 1 from then on, \<^verbatim>\<open>random.random\<close> returns 0, \<^verbatim>\<open>random.choice\<close> the first element.
\<close>

definition fixed_world :: "int list \<Rightarrow> world" where
  "fixed_world ds = \<lparr>dice = ds @- sconst 1, fracs = sconst 0, picks = sconst 0, out = []\<rparr>"

section \<open>Notions used by the properties\<close>

text \<open>A health or sanity mutation, and a sequence of them applied in order.\<close>

datatype mutation = Health int | Sanity int

fun mutate :: "player \<Rightarrow> mutation \<Rightarrow> player" where
  "mutate p (Health amt) = modify_health amt p"
| "mutate p (Sanity amt) = modify_sanity amt p"

text \<open>The condition the \<^verbatim>\<open>alive\<close> flag is said to be derived from.\<close>

definition vital :: "player \<Rightarrow> bool" where
  "vital p = (0 < health p \<and> - 50 < sanity p)"

text \<open>
  The states a player goes through under a sequence of mutations, one after each mutation,
  and the states of an enemy under a sequence of \<^verbatim>\<open>take_damage\<close>.
\<close>

fun states :: "player \<Rightarrow> mutation list \<Rightarrow> player list" where
  "states p [] = []"
| "states p (m # ms) = mutate p m # states (mutate p m) ms"

fun e_states :: "enemy \<Rightarrow> int list \<Rightarrow> enemy list" where
  "e_states e [] = []"
| "e_states e (a # amts) = take_damage a e # e_states (take_damage a e) amts"

text \<open>How often \<^verbatim>\<open>dream_snare\<close> has been narrated, and its effect on agility repeated.\<close>

fun snares :: "event list \<Rightarrow> nat" where
  "snares [] = 0"
| "snares (Snare_text nm loss # evs) = Suc (snares evs)"
| "snares (ev # evs) = snares evs"

fun snared :: "nat \<Rightarrow> int \<Rightarrow> int" where
  "snared 0 a = a"
| "snared (Suc n) a = snared n (max 1 (a - 2))"



section \<open>Helper lemmas\<close>

lemma py_int_half: "0 \<le> x \<Longrightarrow> py_int (real_of_int x / 2) = x div 2"
  using floor_divide_of_int_eq [of x 2, where ?'a = real] by (simp add: py_int_def)

lemma sum_int_first: "(a::int) < b \<Longrightarrow> sum f {a..<b} = f a + sum f {a + 1..<b}"
proof -
  assume "a < b"
  then have "{a..<b} = insert a {a + 1..<b}" by auto
  then show ?thesis by simp
qed

lemma level_ups_spec:
  "level_ups p = (p', evs) \<Longrightarrow>
     level p \<le> level p'
   \<and> max_health p' = max_health p + 10 * (level p' - level p)
   \<and> strength p' = strength p + (level p' - level p)
   \<and> agility p' = agility p + (level p' - level p)
   \<and> magic p' = magic p + (level p' - level p)
   \<and> xp p' = xp p - (\<Sum>l = level p..<level p'. 100 * l)
   \<and> xp p' < 100 * level p'
   \<and> int (length evs) = level p' - level p"
proof (induction p arbitrary: p' evs rule: level_ups.induct)
  case (1 p)
  show ?case
  proof (cases "xp p \<ge> 100 * level p")
    case False
    with "1.prems" show ?thesis by (simp add: level_ups.simps [of p])
  next
    case True
    define p1 where "p1 = p\<lparr>xp := xp p - 100 * level p, level := level p + 1,
                     max_health := max_health p + 10, strength := strength p + 1,
                     agility := agility p + 1, magic := magic p + 1\<rparr>"
    obtain p2 evs2 where r: "level_ups p1 = (p2, evs2)" by (cases "level_ups p1")
    from True "1.prems" r have eq: "p' = p2" "evs = Level_up (level p1) # evs2"
      by (simp_all add: level_ups.simps [of p] p1_def [symmetric] Let_def)
    have ih: "level p1 \<le> level p2
   \<and> max_health p2 = max_health p1 + 10 * (level p2 - level p1)
   \<and> strength p2 = strength p1 + (level p2 - level p1)
   \<and> agility p2 = agility p1 + (level p2 - level p1)
   \<and> magic p2 = magic p1 + (level p2 - level p1)
   \<and> xp p2 = xp p1 - (\<Sum>l = level p1..<level p2. 100 * l)
   \<and> xp p2 < 100 * level p2
   \<and> int (length evs2) = level p2 - level p1"
      using "1.IH" [OF True p1_def r] .
    have lt: "level p < level p2" using ih by (simp add: p1_def)
    have s: "(\<Sum>l = level p..<level p2. 100 * l) = 100 * level p + (\<Sum>l = level p + 1..<level p2. 100 * l)"
      using sum_int_first [OF lt, of "\<lambda>l. 100 * l"] .
    show ?thesis using ih s unfolding eq by (simp add: p1_def)
  qed
qed

lemma level_ups_frame:
  "level_ups p = (p', evs) \<Longrightarrow>
     name p' = name p \<and> cls p' = cls p \<and> class_name p' = class_name p \<and> health p' = health p
   \<and> sanity p' = sanity p \<and> inventory p' = inventory p \<and> equipped p' = equipped p
   \<and> alive p' = alive p \<and> flags p' = flags p \<and> class_resource p' = class_resource p"
proof (induction p arbitrary: p' evs rule: level_ups.induct)
  case (1 p)
  show ?case
  proof (cases "xp p \<ge> 100 * level p")
    case False
    with "1.prems" show ?thesis by (simp add: level_ups.simps [of p])
  next
    case True
    define p1 where "p1 = p\<lparr>xp := xp p - 100 * level p, level := level p + 1,
                     max_health := max_health p + 10, strength := strength p + 1,
                     agility := agility p + 1, magic := magic p + 1\<rparr>"
    obtain p2 evs2 where r: "level_ups p1 = (p2, evs2)" by (cases "level_ups p1")
    from True "1.prems" r have eq: "p' = p2"
      by (simp add: level_ups.simps [of p] p1_def [symmetric] Let_def)
    from "1.IH" [OF True p1_def r] show ?thesis unfolding eq by (simp add: p1_def)
  qed
qed

lemma level_ups_earned:
  "level_ups p = (p', evs) \<Longrightarrow> l \<in> {level p..<level p'} \<Longrightarrow>
     100 * l \<le> xp p - (\<Sum>k = level p..<l. 100 * k)"
proof (induction p arbitrary: p' evs rule: level_ups.induct)
  case (1 p)
  show ?case
  proof (cases "xp p \<ge> 100 * level p")
    case False
    with "1.prems" show ?thesis by (simp add: level_ups.simps [of p])
  next
    case True
    define p1 where "p1 = p\<lparr>xp := xp p - 100 * level p, level := level p + 1,
                     max_health := max_health p + 10, strength := strength p + 1,
                     agility := agility p + 1, magic := magic p + 1\<rparr>"
    obtain p2 evs2 where r: "level_ups p1 = (p2, evs2)" by (cases "level_ups p1")
    from True "1.prems"(1) r have eq: "p' = p2"
      by (simp add: level_ups.simps [of p] p1_def [symmetric] Let_def)
    show ?thesis
    proof (cases "l = level p")
      case True
      with \<open>xp p \<ge> 100 * level p\<close> show ?thesis by simp
    next
      case False
      with "1.prems"(2) eq have l: "l \<in> {level p1..<level p2}" by (simp add: p1_def)
      have ih: "100 * l \<le> xp p1 - (\<Sum>k = level p1..<l. 100 * k)"
        using "1.IH" [OF True p1_def r l] .
      have "level p < l" using False "1.prems"(2) by simp
      from sum_int_first [OF this, of "\<lambda>k. 100 * k"]
      have "(\<Sum>k = level p..<l. 100 * k) = 100 * level p + (\<Sum>k = level p + 1..<l. 100 * k)" .
      with ih show ?thesis by (simp add: p1_def)
    qed
  qed
qed

lemma level_ups_events:
  "level_ups p = (p', evs) \<Longrightarrow> evs = map Level_up [level p + 1..level p']"
proof (induction p arbitrary: p' evs rule: level_ups.induct)
  case (1 p)
  show ?case
  proof (cases "xp p \<ge> 100 * level p")
    case False
    with "1.prems" show ?thesis by (simp add: level_ups.simps [of p])
  next
    case True
    define p1 where "p1 = p\<lparr>xp := xp p - 100 * level p, level := level p + 1,
                     max_health := max_health p + 10, strength := strength p + 1,
                     agility := agility p + 1, magic := magic p + 1\<rparr>"
    obtain p2 evs2 where r: "level_ups p1 = (p2, evs2)" by (cases "level_ups p1")
    from True "1.prems" r have eq: "p' = p2" "evs = Level_up (level p1) # evs2"
      by (simp_all add: level_ups.simps [of p] p1_def [symmetric] Let_def)
    have ih: "evs2 = map Level_up [level p1 + 1..level p2]"
      using "1.IH" [OF True p1_def r] .
    have "level p1 \<le> level p2" using level_ups_spec [OF r] by simp
    then have "[level p + 1..level p2] = (level p + 1) # [level p + 1 + 1..level p2]"
      by (simp add: p1_def upto_rec1)
    with ih show ?thesis unfolding eq by (simp add: p1_def)
  qed
qed

lemma mutate_latch:
  "(alive p \<longrightarrow> vital p) \<Longrightarrow>
     alive (mutate p m) = (alive p \<and> vital (mutate p m)) \<and> (alive (mutate p m) \<longrightarrow> vital (mutate p m))"
  by (cases m) (auto simp: vital_def modify_health_def modify_sanity_def Let_def max_def min_def split: if_splits)

lemma mutations_latch:
  "(alive p \<longrightarrow> vital p) \<Longrightarrow>
     alive (foldl mutate p ms) = (alive p \<and> (\<forall>q\<in>set (states p ms). vital q))
   \<and> (alive (foldl mutate p ms) \<longrightarrow> vital (foldl mutate p ms))"
proof (induction ms arbitrary: p)
  case Nil
  then show ?case by simp
next
  case (Cons m ms)
  from mutate_latch [OF Cons.prems, of m]
  have step: "alive (mutate p m) = (alive p \<and> vital (mutate p m))"
    and inv: "alive (mutate p m) \<longrightarrow> vital (mutate p m)" by simp_all
  from Cons.IH [OF inv] step show ?case by auto
qed

lemma damage_latch:
  "(e_alive e \<longrightarrow> 0 < hp e) \<Longrightarrow>
     e_alive (foldl (\<lambda>e a. take_damage a e) e amts) = (e_alive e \<and> (\<forall>x\<in>set (e_states e amts). 0 < hp x))
   \<and> (e_alive (foldl (\<lambda>e a. take_damage a e) e amts) \<longrightarrow> 0 < hp (foldl (\<lambda>e a. take_damage a e) e amts))"
proof (induction amts arbitrary: e)
  case Nil
  then show ?case by simp
next
  case (Cons a amts)
  have step: "e_alive (take_damage a e) = (e_alive e \<and> 0 < hp (take_damage a e))"
    and inv: "e_alive (take_damage a e) \<longrightarrow> 0 < hp (take_damage a e)"
    using Cons.prems by (auto simp: take_damage_def Let_def max_def split: if_splits)
  from Cons.IH [OF inv] step show ?case by auto
qed

lemma run_loop_no_input: "fst (run_loop c [] w) \<noteq> Some (Return (Some ''escaped''))"
  by (simp add: run_loop.simps [of c "[]" w] player_turn.simps prompt_def)

lemma run_escaped:
  "fst (run c ins w) = Return (Some ''escaped'') \<Longrightarrow> fst (run_loop c ins w) = Some (Return (Some ''escaped''))"
  by (auto simp add: run_def Let_def split: prod.splits option.splits if_splits)

section \<open>Health and sanity mutations\<close>

text \<open>
  C1. For every signed amount, \<open>modify_health\<close> leaves health within \<open>[0, max_health]\<close>
  (for a player whose \<open>max_health\<close> is not negative, as the data model has it); for every
  signed amount, \<open>modify_sanity\<close> adds the amount with no clamp, and the player is not alive
  afterwards when the resulting sanity is at most \<open>-50\<close>, whatever the health.
\<close>

theorem modify_health_sanity_bounds:
  assumes "0 \<le> max_health p"
  shows "0 \<le> health (modify_health amt p) \<and> health (modify_health amt p) \<le> max_health (modify_health amt p)
       \<and> max_health (modify_health amt p) = max_health p
       \<and> sanity (modify_sanity amt p) = sanity p + amt
       \<and> health (modify_sanity amt p) = health p
       \<and> (sanity p + amt \<le> - 50 \<longrightarrow> \<not> alive (modify_sanity amt p))"
  using assms by (auto simp add: modify_health_def modify_sanity_def Let_def max_def min_def)

theorem modify_health_sanity_bounds_witness:
  "0 \<le> max_health (new_player ''Tester'' night_surgeon)
   \<and> health (modify_health (- 200) (new_player ''Tester'' night_surgeon)) = 0
   \<and> sanity (modify_sanity (- 200) (new_player ''Tester'' night_surgeon)) = - 120
   \<and> health (modify_sanity (- 200) (new_player ''Tester'' night_surgeon)) = 90
   \<and> \<not> alive (modify_sanity (- 200) (new_player ''Tester'' night_surgeon))"
  using modify_health_sanity_bounds [of "new_player ''Tester'' night_surgeon" "- 200"]
  by (simp add: new_player_def night_surgeon_def modify_health_def modify_sanity_def)

text \<open>
  C8, as the claim states it, fails: the \<open>alive\<close> flag is not the derived condition. A Night
  Surgeon brought to 0 health and then healed by 30 has health 30 and sanity 80, and is
  not alive.
\<close>

theorem alive_derived_counterexample:
  "vital (foldl mutate (new_player ''Tester'' night_surgeon) [Health (- 90), Health 30])
   \<and> health (foldl mutate (new_player ''Tester'' night_surgeon) [Health (- 90), Health 30]) = 30
   \<and> \<not> alive (foldl mutate (new_player ''Tester'' night_surgeon) [Health (- 90), Health 30])"
  by (simp add: new_player_def night_surgeon_def modify_health_def modify_sanity_def vital_def)

text \<open>
  C8, amended. The \<open>alive\<close> flag is latched. After any sequence of health and sanity
  mutations of a player whose flag, if set, agreed with the derived condition, the flag is
  set exactly when it was set at the start and the derived condition (health above 0 and
  sanity above \<open>-50\<close>) held after every mutation of the sequence: so the flag stays set, and
  equals the derived condition, as long as no mutation has brought health to 0 or sanity to
  \<open>-50\<close> or below, and once a mutation has brought health to 0 the player stays not alive
  whatever follows. The same holds for an enemy under any sequence of \<open>take_damage\<close>.
\<close>

theorem alive_latched:
  assumes "alive p \<longrightarrow> vital p" and "e_alive e \<longrightarrow> 0 < hp e"
  shows "alive (foldl mutate p ms) = (alive p \<and> (\<forall>q\<in>set (states p ms). vital q))
       \<and> (alive (foldl mutate p ms) \<longrightarrow> vital (foldl mutate p ms))
       \<and> (health (modify_health amt p) = 0 \<longrightarrow> \<not> alive (foldl mutate (modify_health amt p) ms))
       \<and> e_alive (foldl (\<lambda>e a. take_damage a e) e amts)
           = (e_alive e \<and> (\<forall>x\<in>set (e_states e amts). 0 < hp x))
       \<and> (e_alive (foldl (\<lambda>e a. take_damage a e) e amts)
            \<longrightarrow> 0 < hp (foldl (\<lambda>e a. take_damage a e) e amts))"
proof -
  note a = mutations_latch [OF assms(1), of ms]
  have "alive (modify_health amt p) \<longrightarrow> vital (modify_health amt p)"
    using mutate_latch [OF assms(1), of "Health amt"] by simp
  from mutations_latch [OF this, of ms]
  have b: "health (modify_health amt p) = 0 \<longrightarrow> \<not> alive (foldl mutate (modify_health amt p) ms)"
    by (auto simp: modify_health_def Let_def split: if_splits)
  note c = damage_latch [OF assms(2), of amts]
  from a b c show ?thesis by blast
qed

theorem alive_latched_witness:
  "alive (new_player ''Tester'' night_surgeon) \<and> vital (new_player ''Tester'' night_surgeon)
   \<and> e_alive Token_Thief \<and> 0 < hp Token_Thief
   \<and> map health (states (new_player ''Tester'' night_surgeon) [Health (- 30), Sanity (- 20), Health 10])
       = [60, 60, 70]
   \<and> map sanity (states (new_player ''Tester'' night_surgeon) [Health (- 30), Sanity (- 20), Health 10])
       = [80, 60, 60]
   \<and> alive (foldl mutate (new_player ''Tester'' night_surgeon) [Health (- 30), Sanity (- 20), Health 10])
   \<and> vital (foldl mutate (new_player ''Tester'' night_surgeon) [Health (- 30), Sanity (- 20), Health 10])
   \<and> health (modify_health (- 90) (new_player ''Tester'' night_surgeon)) = 0
   \<and> \<not> alive (foldl mutate (modify_health (- 90) (new_player ''Tester'' night_surgeon))
                [Health (- 30), Sanity (- 20), Health 10])
   \<and> map hp (e_states Token_Thief [20, 10]) = [15, 5]
   \<and> e_alive (foldl (\<lambda>e a. take_damage a e) Token_Thief [20, 10])
   \<and> 0 < hp (foldl (\<lambda>e a. take_damage a e) Token_Thief [20, 10])"
proof -
  let ?p = "new_player ''Tester'' night_surgeon"
  let ?ms = "[Health (- 30), Sanity (- 20), Health 10]"
  have h1: "alive ?p \<longrightarrow> vital ?p"
    by (simp add: new_player_def night_surgeon_def vital_def)
  have h2: "e_alive Token_Thief \<longrightarrow> 0 < hp Token_Thief"
    by (simp add: Token_Thief_def new_enemy_def)
  have h3: "map health (states ?p ?ms) = [60, 60, 70] \<and> map sanity (states ?p ?ms) = [80, 60, 60]"
    by (simp add: new_player_def night_surgeon_def modify_health_def modify_sanity_def)
  have h4: "health (modify_health (- 90) ?p) = 0"
    by (simp add: new_player_def night_surgeon_def modify_health_def)
  have h5: "map hp (e_states Token_Thief [20, 10]) = [15, 5]"
    by (simp add: Token_Thief_def new_enemy_def take_damage_def)
  have h6: "alive ?p \<and> vital ?p \<and> e_alive Token_Thief \<and> 0 < hp Token_Thief"
    by (simp add: new_player_def night_surgeon_def vital_def Token_Thief_def new_enemy_def)
  have v: "\<forall>q\<in>set (states ?p ?ms). vital q"
    by (simp add: new_player_def night_surgeon_def modify_health_def modify_sanity_def vital_def)
  have ev: "\<forall>x\<in>set (e_states Token_Thief [20, 10]). 0 < hp x"
    by (simp add: Token_Thief_def new_enemy_def take_damage_def)
  from alive_latched [OF h1 h2, where ms = ?ms and amt = "- 90" and amts = "[20, 10]"]
    h3 h4 h5 h6 v ev
  show ?thesis by simp
qed

section \<open>Progression\<close>

text \<open>
  C3, as the claim states it, fails: 250 XP granted to a new level-1 player gives level 2,
  not 3, with 150 XP left, 10 more maximal health and 1 more of each stat. Nothing is
  clamped.
\<close>

theorem gain_xp_250_counterexample:
  "level (fst (gain_xp 250 (new_player ''Tester'' night_surgeon))) = 2
   \<and> xp (fst (gain_xp 250 (new_player ''Tester'' night_surgeon))) = 150
   \<and> max_health (fst (gain_xp 250 (new_player ''Tester'' night_surgeon))) = 90 + 10
   \<and> strength (fst (gain_xp 250 (new_player ''Tester'' night_surgeon))) = 8 + 1
   \<and> level (fst (gain_xp 250 (new_player ''Tester'' night_surgeon))) \<noteq> 3"
  by (simp add: gain_xp_def new_player_def night_surgeon_def level_ups.simps)

text \<open>
  C3, amended. \<open>gain_xp\<close> never decreases level and cascades level-ups within one call
  exactly while \<open>xp \<ge> 100 * level\<close>: every level gained was paid for at its threshold by the
  xp held at that moment, and what remains is below the threshold of the level reached. Each
  level gained adds 10 to \<open>max_health\<close> and 1 to strength, agility and magic and is
  announced once, in order; nothing else of the player changes; what remains is the old xp
  plus the amount minus the thresholds paid, without any clamp. In particular 250 XP granted
  to a level-1 player with no xp yield level 2 and leave 150 XP.
\<close>

theorem gain_xp_cascade:
  assumes "gain_xp amount p = (p', evs)"
  shows "level p \<le> level p'
       \<and> p' = p\<lparr>xp := xp p + amount - (\<Sum>l = level p..<level p'. 100 * l),
                 level := level p',
                 max_health := max_health p + 10 * (level p' - level p),
                 strength := strength p + (level p' - level p),
                 agility := agility p + (level p' - level p),
                 magic := magic p + (level p' - level p)\<rparr>
       \<and> (\<forall>l\<in>{level p..<level p'}. 100 * l \<le> xp p + amount - (\<Sum>k = level p..<l. 100 * k))
       \<and> xp p' < 100 * level p'
       \<and> evs = map Level_up [level p + 1..level p']
       \<and> (level p = 1 \<and> xp p = 0 \<and> amount = 250 \<longrightarrow> level p' = 2 \<and> xp p' = 150)"
proof -
  from assms have l: "level_ups (p\<lparr>xp := xp p + amount\<rparr>) = (p', evs)"
    by (simp add: gain_xp_def)
  have spec: "level p \<le> level p'
       \<and> max_health p' = max_health p + 10 * (level p' - level p)
       \<and> strength p' = strength p + (level p' - level p)
       \<and> agility p' = agility p + (level p' - level p)
       \<and> magic p' = magic p + (level p' - level p)
       \<and> xp p' = xp p + amount - (\<Sum>l = level p..<level p'. 100 * l)
       \<and> xp p' < 100 * level p'"
    using level_ups_spec [OF l] by simp
  have frame: "name p' = name p \<and> cls p' = cls p \<and> class_name p' = class_name p \<and> health p' = health p
   \<and> sanity p' = sanity p \<and> inventory p' = inventory p \<and> equipped p' = equipped p
   \<and> alive p' = alive p \<and> flags p' = flags p \<and> class_resource p' = class_resource p"
    using level_ups_frame [OF l] by simp
  have rec: "p' = p\<lparr>xp := xp p + amount - (\<Sum>l = level p..<level p'. 100 * l),
                 level := level p',
                 max_health := max_health p + 10 * (level p' - level p),
                 strength := strength p + (level p' - level p),
                 agility := agility p + (level p' - level p),
                 magic := magic p + (level p' - level p)\<rparr>"
    by (rule player.equality) (simp_all add: spec frame)
  have earned: "\<forall>l\<in>{level p..<level p'}. 100 * l \<le> xp p + amount - (\<Sum>k = level p..<l. 100 * k)"
  proof
    fix k assume "k \<in> {level p..<level p'}"
    with level_ups_earned [OF l, of k] show "100 * k \<le> xp p + amount - (\<Sum>k = level p..<k. 100 * k)"
      by simp
  qed
  have evs: "evs = map Level_up [level p + 1..level p']"
    using level_ups_events [OF l] by simp
  have ex: "level p = 1 \<and> xp p = 0 \<and> amount = 250 \<longrightarrow> level p' = 2 \<and> xp p' = 150"
  proof
    assume a: "level p = 1 \<and> xp p = 0 \<and> amount = 250"
    then have "level_ups (p\<lparr>xp := xp p + amount\<rparr>)
                 = (p\<lparr>xp := 150, level := 2, max_health := max_health p + 10,
                         strength := strength p + 1, agility := agility p + 1, magic := magic p + 1\<rparr>,
                    [Level_up 2])"
      by (simp add: level_ups.simps)
    with l have "p' = p\<lparr>xp := 150, level := 2, max_health := max_health p + 10,
                         strength := strength p + 1, agility := agility p + 1, magic := magic p + 1\<rparr>"
      by simp
    then show "level p' = 2 \<and> xp p' = 150" by simp
  qed
  from spec rec earned evs ex show ?thesis by blast
qed

theorem gain_xp_cascade_witness:
  "gain_xp 300 (new_player ''Tester'' night_surgeon)
     = ((new_player ''Tester'' night_surgeon)\<lparr>xp := 0, level := 3, max_health := 110,
          strength := 10, agility := 8, magic := 8\<rparr>, [Level_up 2, Level_up 3])
   \<and> level (new_player ''Tester'' night_surgeon) = 1
   \<and> xp (new_player ''Tester'' night_surgeon) + 300 - (\<Sum>l = (1::int)..<3. 100 * l) = 0
   \<and> 100 * 1 \<le> xp (new_player ''Tester'' night_surgeon) + 300 - (\<Sum>k = (1::int)..<1. 100 * k)
   \<and> 100 * 2 \<le> xp (new_player ''Tester'' night_surgeon) + 300 - (\<Sum>k = (1::int)..<2. 100 * k)
   \<and> map Level_up [1 + 1..3] = [Level_up 2, Level_up 3]"
proof -
  have h: "gain_xp 300 (new_player ''Tester'' night_surgeon)
     = ((new_player ''Tester'' night_surgeon)\<lparr>xp := 0, level := 3, max_health := 110,
          strength := 10, agility := 8, magic := 8\<rparr>, [Level_up 2, Level_up 3])"
    by (simp add: gain_xp_def new_player_def night_surgeon_def level_ups.simps)
  have s: "{1..<3} = {1, 2::int}" "{1..<2} = {1::int}" by auto
  have u: "[2..3] = [2, 3::int]" by (simp add: upto.simps)
  from gain_xp_cascade [OF h] h show ?thesis
    by (simp add: new_player_def night_surgeon_def s u)
qed

section \<open>Attack and escape rolls\<close>

text \<open>
  C2, as the claim states it, fails for the enemy: \<open>attack_player\<close> adds half of the
  enemy's agility, not half of its strength, to the hit roll. With both dice at 10 a
  Sleep-Poltergeist (strength 9, agility 5) would hit a Night Surgeon (agility 6) by the
  claimed formula, 14 against 13; the code makes it miss, 12 against 13.
\<close>

theorem enemy_accuracy_counterexample:
  "10 + e_strength Sleep_Poltergeist div 2 \<ge> 10 + agility (new_player ''Tester'' night_surgeon) div 2
   \<and> attack_player Sleep_Poltergeist (new_player ''Tester'' night_surgeon) (fixed_world [10, 10])
     = (Enemy_misses ''Sleep-Poltergeist'', new_player ''Tester'' night_surgeon,
        (fixed_world [10, 10])\<lparr>dice := sconst 1\<rparr>)"
  by (simp add: attack_player_def roll_def randint_def Sleep_Poltergeist_def new_enemy_def new_player_def
     night_surgeon_def fixed_world_def py_int_def Let_def)

text \<open>
  C2, amended. For every pair of d20 rolls \<open>a\<close> (attacker) and \<open>d\<close> (defender), with stats
  between 0 and \<open>2 ^ 53\<close> (where the code's halving on floats is exact): the player's attack
  hits if and only if \<open>a + strength div 2 \<ge> d + enemy agility div 2\<close>, and the enemy's
  standard attack hits if and only if \<open>a + enemy agility div 2 \<ge> d + player agility div 2\<close>;
  ties favour the attacker in both, a miss changes nothing, a hit applies its damage.
\<close>

theorem attack_accuracy:
  assumes "dice w = a ## d ## rest"
    and "0 \<le> strength (player c)" and "strength (player c) \<le> 2 ^ 53"
    and "0 \<le> agility (player c)" and "agility (player c) \<le> 2 ^ 53"
    and "0 \<le> e_agility (enemy c)" and "e_agility (enemy c) \<le> 2 ^ 53"
    and "0 \<le> e_strength (enemy c)" and "e_strength (enemy c) \<le> 2 ^ 53"
  shows "(case player_attack c w of (r, c', w') \<Rightarrow>
            if a + strength (player c) div 2 \<ge> d + e_agility (enemy c) div 2
            then (\<exists>dmg. enemy c' = take_damage dmg (enemy c) \<and> last (out w') = Hit_enemy (e_name (enemy c)) dmg)
            else c' = c \<and> out w' = out w @ [Attack_misses])
       \<and> (case attack_player (enemy c) (player c) w of (ev, p', w') \<Rightarrow>
            if a + e_agility (enemy c) div 2 \<ge> d + agility (player c) div 2
            then (\<exists>dmg. p' = modify_health (- dmg) (player c) \<and> ev = Enemy_hits (e_name (enemy c)) dmg)
            else p' = player c \<and> ev = Enemy_misses (e_name (enemy c)))"
  using assms(1,2,4,6)
  by (simp add: player_attack_def attack_player_def roll_def randint_def random_random_def say_def
      py_int_half Let_def split_def)

theorem attack_accuracy_witness:
  "dice (fixed_world [10, 10]) = 10 ## 10 ## sconst 1
   \<and> strength (new_player ''Tester'' night_surgeon) = 8
   \<and> agility (new_player ''Tester'' night_surgeon) = 6
   \<and> e_agility Token_Thief = 9 \<and> e_strength Token_Thief = 7
   \<and> hp (enemy (fst (snd (player_attack (new_combat (new_player ''Tester'' night_surgeon) Token_Thief)
                             (fixed_world [10, 10]))))) = 27
   \<and> out (snd (snd (player_attack (new_combat (new_player ''Tester'' night_surgeon) Token_Thief)
                      (fixed_world [10, 10])))) = [Hit_enemy ''Token Thief'' 8]
   \<and> attack_player Token_Thief (new_player ''Tester'' night_surgeon) (fixed_world [10, 10])
       = (Enemy_hits ''Token Thief'' 7, modify_health (- 7) (new_player ''Tester'' night_surgeon),
          \<lparr>dice = sconst 1, fracs = sconst 0, picks = sconst 0, out = []\<rparr>)
   \<and> health (modify_health (- 7) (new_player ''Tester'' night_surgeon)) = 83"
proof -
  let ?c = "new_combat (new_player ''Tester'' night_surgeon) Token_Thief"
  have h1: "dice (fixed_world [10, 10]) = 10 ## 10 ## sconst 1"
    by (simp add: fixed_world_def)
  have h2: "0 \<le> strength (player ?c)" "strength (player ?c) \<le> 2 ^ 53"
    and h3: "0 \<le> agility (player ?c)" "agility (player ?c) \<le> 2 ^ 53"
    by (simp_all add: new_combat_def new_player_def night_surgeon_def)
  have h4: "0 \<le> e_agility (enemy ?c)" "e_agility (enemy ?c) \<le> 2 ^ 53"
    and h5: "0 \<le> e_strength (enemy ?c)" "e_strength (enemy ?c) \<le> 2 ^ 53"
    by (simp_all add: new_combat_def Token_Thief_def new_enemy_def)
  have vals: "strength (new_player ''Tester'' night_surgeon) = 8
      \<and> agility (new_player ''Tester'' night_surgeon) = 6 \<and> e_agility Token_Thief = 9
      \<and> e_strength Token_Thief = 7"
    by (simp add: new_player_def night_surgeon_def Token_Thief_def new_enemy_def)
  have pa: "hp (enemy (fst (snd (player_attack ?c (fixed_world [10, 10]))))) = 27
     \<and> out (snd (snd (player_attack ?c (fixed_world [10, 10])))) = [Hit_enemy ''Token Thief'' 8]"
    by (simp add: player_attack_def roll_def randint_def random_random_def say_def py_int_def Let_def
        startswith_def lower_def lower_char_def take_damage_def
        new_combat_def new_player_def night_surgeon_def Token_Thief_def new_enemy_def fixed_world_def)
  have ap: "attack_player Token_Thief (new_player ''Tester'' night_surgeon) (fixed_world [10, 10])
       = (Enemy_hits ''Token Thief'' 7, modify_health (- 7) (new_player ''Tester'' night_surgeon),
          \<lparr>dice = sconst 1, fracs = sconst 0, picks = sconst 0, out = []\<rparr>)
     \<and> health (modify_health (- 7) (new_player ''Tester'' night_surgeon)) = 83"
    by (simp add: attack_player_def roll_def randint_def random_random_def py_int_def Let_def
        modify_health_def new_player_def night_surgeon_def Token_Thief_def new_enemy_def fixed_world_def)
  from attack_accuracy [OF h1 h2 h3 h4 h5] vals h1 pa ap show ?thesis
    by simp
qed

text \<open>
  C5. For every pair of d20 rolls \<open>a\<close> (player) and \<open>d\<close> (enemy) and a combat in which
  both are alive, with agilities between 0 and \<open>2 ^ 53\<close> (where the code's halving on floats
  is exact): when the command read is \<open>run\<close>, the attempt succeeds if and only if
  \<open>a + agility div 2 > d + enemy agility div 2\<close>. On success \<open>Combat.run\<close> returns
  \<open>escaped\<close> at once: player, enemy and turn count are as before, only the two dice were
  rolled, and the narration ends with the escape message. Otherwise, equal totals included,
  the attempt fails: the player's turn returns \<open>None\<close>, \<open>Combat.run\<close> goes on with the
  enemy's turn of the same cycle, and with no further input it does not return \<open>escaped\<close>.
\<close>

theorem escape_strict:
  assumes "alive (player c)" and "e_alive (enemy c)"
    and "dice w = a ## d ## rest"
    and "0 \<le> agility (player c)" and "agility (player c) \<le> 2 ^ 53"
    and "0 \<le> e_agility (enemy c)" and "e_agility (enemy c) \<le> 2 ^ 53"
    and "split (strip line) = t0 # ts" and "lower t0 = ''run''"
  shows "(a + agility (player c) div 2 > d + e_agility (enemy c) div 2 \<longrightarrow>
            (case run c (line # ins) w of (r, c', ins', w') \<Rightarrow>
               r = Return (Some ''escaped'') \<and> c' = c \<and> ins' = ins \<and> dice w' = rest
               \<and> fracs w' = fracs w \<and> picks w' = picks w
               \<and> out w' = out (show_status c w)
                    @ [Options_line, Prompt_text ''What do you do? (type command)'', Escape_ok]))
       \<and> (a + agility (player c) div 2 \<le> d + e_agility (enemy c) div 2 \<longrightarrow>
            (\<exists>w1. player_turn c (line # ins) (show_status c w) = (Return None, c, ins, w1)
               \<and> dice w1 = rest \<and> last (out w1) = Escape_failed
               \<and> run_loop c (line # ins) w
                   = (case enemy_turn (revert_defend c) w1 of
                        (c3, w3) \<Rightarrow>
                          if \<not> alive (player c3) then (None, c3, ins, w3)
                          else run_loop (c3\<lparr>turn_count := turn_count c3 + 1\<rparr>) ins w3))
            \<and> fst (run c [line] w) \<noteq> Return (Some ''escaped''))"
proof (intro conjI impI)
  assume "a + agility (player c) div 2 > d + e_agility (enemy c) div 2"
  with assms(1-4,6,8,9)
  show "case run c (line # ins) w of (r, c', ins', w') \<Rightarrow>
               r = Return (Some ''escaped'') \<and> c' = c \<and> ins' = ins \<and> dice w' = rest
               \<and> fracs w' = fracs w \<and> picks w' = picks w
               \<and> out w' = out (show_status c w)
                    @ [Options_line, Prompt_text ''What do you do? (type command)'', Escape_ok]"
    by (simp add: run_def run_loop.simps [of c] player_turn.simps prompt_def player_command_def
        Let_def roll_def randint_def say_def show_status_def py_int_half split: prod.splits)
next
  assume le: "a + agility (player c) div 2 \<le> d + e_agility (enemy c) div 2"
  have e: "e_alive (enemy (revert_defend c))"
    using assms(2) by (simp add: revert_defend_def split: option.splits)
  from le assms(1-4,6,8,9) e
  show "\<exists>w1. player_turn c (line # ins) (show_status c w) = (Return None, c, ins, w1)
               \<and> dice w1 = rest \<and> last (out w1) = Escape_failed
               \<and> run_loop c (line # ins) w
                   = (case enemy_turn (revert_defend c) w1 of
                        (c3, w3) \<Rightarrow>
                          if \<not> alive (player c3) then (None, c3, ins, w3)
                          else run_loop (c3\<lparr>turn_count := turn_count c3 + 1\<rparr>) ins w3)"
    by (simp add: run_loop.simps [of c] player_turn.simps prompt_def player_command_def
        Let_def roll_def randint_def say_def show_status_def py_int_half)
next
  assume le: "a + agility (player c) div 2 \<le> d + e_agility (enemy c) div 2"
  have e: "e_alive (enemy (revert_defend c))"
    using assms(2) by (simp add: revert_defend_def split: option.splits)
  define w1 where "w1 = say Escape_failed
      ((say (Prompt_text ''What do you do? (type command)'') (say Options_line (show_status c w)))\<lparr>dice := rest\<rparr>)"
  from le assms(1-4,6,8,9) e
  have rl: "run_loop c [line] w
                   = (case enemy_turn (revert_defend c) w1 of
                        (c3, w3) \<Rightarrow>
                          if \<not> alive (player c3) then (None, c3, [], w3)
                          else run_loop (c3\<lparr>turn_count := turn_count c3 + 1\<rparr>) [] w3)"
    by (simp add: run_loop.simps [of c] player_turn.simps prompt_def player_command_def w1_def
        Let_def roll_def randint_def say_def show_status_def py_int_half)
  obtain c3 w3 where et: "enemy_turn (revert_defend c) w1 = (c3, w3)"
    by (cases "enemy_turn (revert_defend c) w1")
  have "fst (run_loop c [line] w) \<noteq> Some (Return (Some ''escaped''))"
    using run_loop_no_input [of "c3\<lparr>turn_count := turn_count c3 + 1\<rparr>" w3]
    by (simp add: rl et)
  with run_escaped [of c "[line]" w] show "fst (run c [line] w) \<noteq> Return (Some ''escaped'')"
    by blast
qed

theorem escape_strict_witness:
  "alive (new_player ''Tester'' night_surgeon) \<and> e_alive Token_Thief
   \<and> agility (new_player ''Tester'' night_surgeon) = 6 \<and> e_agility Token_Thief = 9
   \<and> split (strip '' Run away'') = [''Run'', ''away''] \<and> lower ''Run'' = ''run''
   \<and> fst (run (new_combat (new_player ''Tester'' night_surgeon) Token_Thief) ['' Run away''] (fixed_world [20, 1]))
        = Return (Some ''escaped'')
   \<and> fst (snd (run (new_combat (new_player ''Tester'' night_surgeon) Token_Thief) ['' Run away''] (fixed_world [20, 1])))
        = new_combat (new_player ''Tester'' night_surgeon) Token_Thief
   \<and> fst (player_turn (new_combat (new_player ''Tester'' night_surgeon) Token_Thief) ['' Run away'']
            (show_status (new_combat (new_player ''Tester'' night_surgeon) Token_Thief) (fixed_world [10, 9])))
        = Return None
   \<and> fst (run (new_combat (new_player ''Tester'' night_surgeon) Token_Thief) ['' Run away''] (fixed_world [10, 9]))
        \<noteq> Return (Some ''escaped'')"
proof -
  let ?c = "new_combat (new_player ''Tester'' night_surgeon) Token_Thief"
  have h1: "alive (player ?c)" and h2: "e_alive (enemy ?c)"
    and h4: "0 \<le> agility (player ?c)" and h4': "agility (player ?c) \<le> 2 ^ 53"
    and h5: "0 \<le> e_agility (enemy ?c)" and h5': "e_agility (enemy ?c) \<le> 2 ^ 53"
    by (simp_all add: new_combat_def new_player_def night_surgeon_def Token_Thief_def new_enemy_def)
  have h3: "dice (fixed_world [20, 1]) = 20 ## 1 ## sconst 1"
    and h3': "dice (fixed_world [10, 9]) = 10 ## 9 ## sconst 1"
    by (simp_all add: fixed_world_def)
  have h6: "split (strip '' Run away'') = ''Run'' # [''away'']"
    by (simp add: split_def strip_def isspace_def)
  have h7: "lower ''Run'' = ''run''"
    by (simp add: lower_def lower_char_def)
  have vals: "alive (new_player ''Tester'' night_surgeon) \<and> e_alive Token_Thief
      \<and> agility (new_player ''Tester'' night_surgeon) = 6 \<and> e_agility Token_Thief = 9"
    by (simp add: new_player_def night_surgeon_def Token_Thief_def new_enemy_def)
  have st: "player ?c = new_player ''Tester'' night_surgeon" "enemy ?c = Token_Thief"
    by (simp_all add: new_combat_def)
  from escape_strict [OF h1 h2 h3 h4 h4' h5 h5' h6 h7, of "[]"] vals
  have win: "fst (run ?c ['' Run away''] (fixed_world [20, 1])) = Return (Some ''escaped'')
      \<and> fst (snd (run ?c ['' Run away''] (fixed_world [20, 1]))) = ?c"
    by (simp add: st split: prod.splits)
  from escape_strict [OF h1 h2 h3' h4 h4' h5 h5' h6 h7, of "[]"] vals
  have tie: "fst (player_turn ?c ['' Run away''] (show_status ?c (fixed_world [10, 9]))) = Return None
      \<and> fst (run ?c ['' Run away''] (fixed_world [10, 9])) \<noteq> Return (Some ''escaped'')"
    by (auto simp add: st)
  from win tie vals h6 h7 show ?thesis by simp
qed

section \<open>Exceptions in the player's turn\<close>

text \<open>
  C9, as the claim states it, fails: on an empty line, or a line of blanks only,
  \<^verbatim>\<open>choice.split()\<close> is the empty list and \<^verbatim>\<open>tokens[0]\<close> raises \<^verbatim>\<open>IndexError\<close>, which
  leaves \<open>player_turn\<close> and, in a combat with both sides alive, \<open>Combat.run\<close>.
\<close>

theorem empty_line_raises:
  "player_turn c ('''' # ins) w
     = (Raise IndexError, c, ins, say (Prompt_text ''What do you do? (type command)'') (say Options_line w))
   \<and> fst (player_turn c (''   '' # ins) w) = Raise IndexError
   \<and> fst (run (new_combat (new_player ''Tester'' night_surgeon) Token_Thief) [''''] (fixed_world []))
       = Raise IndexError"
  by (simp add: run_def run_loop.simps player_turn.simps prompt_def player_command_def strip_def split_def
     isspace_def Let_def new_combat_def new_player_def night_surgeon_def Token_Thief_def new_enemy_def)

section \<open>Turn order in \<open>Combat.run\<close>\<close>

text \<open>
  C4 fails on the code: \<open>run\<close> reverts the defend boost right after the player's turn,
  before \<open>enemy_turn\<close>. A Night Surgeon (agility 6) defends against a Token Thief
  (agility 9), both dice at 10: the enemy hits, 14 against 13, for 7 damage, and the escape
  of the next round ends the combat at health 83. Had the boost (agility 10) still been
  in effect, the same dice would have made the enemy miss, 14 against 15.
\<close>

theorem defend_boost_reverted_before_enemy:
  "fst (run (new_combat (new_player ''Tester'' night_surgeon) Token_Thief) [''defend'', ''run'']
          (fixed_world [10, 10, 20, 1])) = Return (Some ''escaped'')
   \<and> health (player (fst (snd (run (new_combat (new_player ''Tester'' night_surgeon) Token_Thief)
          [''defend'', ''run''] (fixed_world [10, 10, 20, 1]))))) = 83
   \<and> agility (player (fst (snd (run (new_combat (new_player ''Tester'' night_surgeon) Token_Thief)
          [''defend'', ''run''] (fixed_world [10, 10, 20, 1]))))) = 6
   \<and> Enemy_hits ''Token Thief'' 7 \<in> set (out (snd (snd (snd (run
          (new_combat (new_player ''Tester'' night_surgeon) Token_Thief)
          [''defend'', ''run''] (fixed_world [10, 10, 20, 1]))))))
   \<and> agility (player (fst (snd (player_defend (new_combat (new_player ''Tester'' night_surgeon) Token_Thief)
          (fixed_world [10, 10]))))) = 10
   \<and> fst (attack_player Token_Thief
            (player (fst (snd (player_defend (new_combat (new_player ''Tester'' night_surgeon) Token_Thief)
               (fixed_world [10, 10])))))
            (fixed_world [10, 10])) = Enemy_misses ''Token Thief''"
  by (simp add: run_def run_loop.simps player_turn.simps prompt_def player_command_def
     player_defend_def revert_defend_def enemy_turn_def attack_player_def modify_health_def
     strip_def split_def isspace_def lower_def lower_char_def Let_def
     roll_def randint_def random_random_def say_def show_status_def py_int_def
     new_combat_def new_player_def night_surgeon_def Token_Thief_def new_enemy_def fixed_world_def)

text \<open>
  C7, as the claim states it, fails: after \<open>stats\<close> the enemy acts in the same cycle. A
  Night Surgeon asks for the stats against a Token Thief, both dice at 10: the enemy hits
  for 7 before the next prompt, and the combat ends (by the escape of the next round) at
  health 83. The same holds after \<open>inventory\<close>.
\<close>

theorem stats_consumes_turn_counterexample:
  "health (player (fst (snd (run (new_combat (new_player ''Tester'' night_surgeon) Token_Thief)
          [''stats'', ''run''] (fixed_world [10, 10, 20, 1]))))) = 83
   \<and> Enemy_hits ''Token Thief'' 7 \<in> set (out (snd (snd (snd (run
          (new_combat (new_player ''Tester'' night_surgeon) Token_Thief)
          [''stats'', ''run''] (fixed_world [10, 10, 20, 1]))))))
   \<and> turn_count (fst (snd (run (new_combat (new_player ''Tester'' night_surgeon) Token_Thief)
          [''stats'', ''run''] (fixed_world [10, 10, 20, 1])))) = 1
   \<and> health (player (fst (snd (run (new_combat (new_player ''Tester'' night_surgeon) Token_Thief)
          [''inventory'', ''run''] (fixed_world [10, 10, 20, 1]))))) = 83"
  by (simp add: run_def run_loop.simps player_turn.simps prompt_def player_command_def
     revert_defend_def enemy_turn_def attack_player_def modify_health_def inventory_list_def
     strip_def split_def isspace_def lower_def lower_char_def Let_def
     roll_def randint_def random_random_def say_def show_status_def py_int_def
     new_combat_def new_player_def night_surgeon_def Token_Thief_def new_enemy_def fixed_world_def)

text \<open>
  C7, amended. During combat, \<open>inventory\<close> and \<open>stats\<close> change nothing but the
  narration, and they consume the player's turn: \<open>player_turn\<close> returns \<open>None\<close> with the
  combat as it was and no random draw made, and \<open>Combat.run\<close> goes on to the enemy's turn
  of the same cycle; the player is prompted again only in the next cycle, if both are
  still alive.
\<close>

theorem view_commands_consume_turn:
  assumes "alive (player c)" and "e_alive (enemy c)"
    and "split (strip line) = t0 # ts"
    and "lower t0 = ''inventory'' \<or> lower t0 = ''stats''"
  shows "\<exists>w1. player_turn c (line # ins) (show_status c w) = (Return None, c, ins, w1)
           \<and> dice w1 = dice w \<and> fracs w1 = fracs w \<and> picks w1 = picks w
           \<and> run_loop c (line # ins) w
               = (case enemy_turn (revert_defend c) w1 of
                    (c3, w3) \<Rightarrow>
                      if \<not> alive (player c3) then (None, c3, ins, w3)
                      else run_loop (c3\<lparr>turn_count := turn_count c3 + 1\<rparr>) ins w3)"
proof -
  have e: "e_alive (enemy (revert_defend c))"
    using assms(2) by (simp add: revert_defend_def split: option.splits)
  from assms(4) show ?thesis
  proof
    assume "lower t0 = ''inventory''"
    with assms(1-3) e show ?thesis
      by (simp add: run_loop.simps [of c] player_turn.simps prompt_def player_command_def
          Let_def say_def show_status_def)
  next
    assume "lower t0 = ''stats''"
    with assms(1-3) e show ?thesis
      by (simp add: run_loop.simps [of c] player_turn.simps prompt_def player_command_def
          Let_def say_def show_status_def)
  qed
qed

theorem view_commands_consume_turn_witness:
  "alive (new_player ''Tester'' night_surgeon) \<and> e_alive Token_Thief
   \<and> split (strip ''Stats'') = [''Stats''] \<and> lower ''Stats'' = ''stats''
   \<and> fst (player_turn (new_combat (new_player ''Tester'' night_surgeon) Token_Thief) [''Stats'']
            (show_status (new_combat (new_player ''Tester'' night_surgeon) Token_Thief) (fixed_world [10, 10])))
        = Return None
   \<and> fst (snd (player_turn (new_combat (new_player ''Tester'' night_surgeon) Token_Thief) [''Stats'']
            (show_status (new_combat (new_player ''Tester'' night_surgeon) Token_Thief) (fixed_world [10, 10]))))
        = new_combat (new_player ''Tester'' night_surgeon) Token_Thief"
proof -
  let ?c = "new_combat (new_player ''Tester'' night_surgeon) Token_Thief"
  have h1: "alive (player ?c)" and h2: "e_alive (enemy ?c)"
    by (simp_all add: new_combat_def new_player_def night_surgeon_def Token_Thief_def new_enemy_def)
  have h3: "split (strip ''Stats'') = ''Stats'' # []"
    by (simp add: split_def strip_def isspace_def)
  have h4: "lower ''Stats'' = ''inventory'' \<or> lower ''Stats'' = ''stats''"
    by (simp add: lower_def lower_char_def)
  have vals: "alive (new_player ''Tester'' night_surgeon) \<and> e_alive Token_Thief
      \<and> lower ''Stats'' = ''stats''"
    by (simp add: new_player_def night_surgeon_def Token_Thief_def new_enemy_def lower_def lower_char_def)
  from view_commands_consume_turn [OF h1 h2 h3 h4, of "[]" "fixed_world [10, 10]"]
  obtain w1 where "player_turn ?c [''Stats''] (show_status ?c (fixed_world [10, 10])) = (Return None, ?c, [], w1)"
    by blast
  with vals h3 show ?thesis by simp
qed

section \<open>Commands and cycles of a combat\<close>

text \<open>
  What \<open>player_command\<close> does for each command word, and an induction principle for
  \<open>run_loop\<close> that follows the cycles of the loop.
\<close>

lemma player_command_cases:
  assumes "split choice = t0 # ts"
  shows "lower t0 = ''attack'' \<Longrightarrow>
           player_command choice c w = (case player_attack c w of (r, c1, w1) \<Rightarrow> (Return r, c1, w1))"
    and "lower t0 = ''defend'' \<Longrightarrow>
           player_command choice c w = (case player_defend c w of (r, c1, w1) \<Rightarrow> (Return r, c1, w1))"
    and "lower t0 = ''use'' \<Longrightarrow> ts = [] \<Longrightarrow>
           player_command choice c w = (Return None, c, say Use_what w)"
    and "lower t0 = ''use'' \<Longrightarrow> ts \<noteq> [] \<Longrightarrow>
           inventory_remove (join '' '' ts) (inventory (player c)) = (None, rest) \<Longrightarrow>
           player_command choice c w
             = (Return None, c\<lparr>player := (player c)\<lparr>inventory := rest\<rparr>\<rparr>,
                say (No_such_item (join '' '' ts)) w)"
    and "lower t0 = ''use'' \<Longrightarrow> ts \<noteq> [] \<Longrightarrow>
           inventory_remove (join '' '' ts) (inventory (player c)) = (Some it, rest) \<Longrightarrow>
           use it ((player c)\<lparr>inventory := rest\<rparr>) (Some (enemy c)) = (ev, p', e') \<Longrightarrow>
           player_command choice c w
             = (Return None,
                c\<lparr>player := p', enemy := (case e' of Some en \<Rightarrow> en | None \<Rightarrow> enemy c)\<rparr>,
                say ev w)"
    and "lower t0 = ''inventory'' \<Longrightarrow>
           player_command choice c w = (Return None, c, say (inventory_list (inventory (player c))) w)"
    and "lower t0 = ''special'' \<Longrightarrow> player_command choice c w = player_special c w"
    and "lower t0 = ''stats'' \<Longrightarrow>
           player_command choice c w = (Return None, c, say (Player_status (player c)) w)"
  using assms by (simp_all add: player_command_def Let_def cong: option.case_cong)

lemma player_command_run:
  assumes "split choice = t0 # ts" and "lower t0 = ''run''"
  shows "\<exists>r w1 ev. player_command choice c w = (Return r, c, w1) \<and> out w1 = out w @ [ev]
           \<and> (ev = Escape_ok \<or> ev = Escape_failed)"
  using assms
  by (simp add: player_command_def Let_def roll_def randint_def say_def split_def)

lemma player_command_other:
  assumes "split choice = t0 # ts"
    and "lower t0 \<notin> {''attack'', ''defend'', ''use'', ''inventory'', ''special'', ''stats'', ''run''}"
  shows "player_command choice c w = (Return None, c, say Not_valid_command w)"
  using assms by (simp add: player_command_def Let_def)

lemma run_loop_cycles:
  assumes run: "run_loop c ins w = (r, c', ins', w')"
    and stop: "\<And>c w. P c w c w"
    and leave: "\<And>c ins w r1 c1 ins1 w1.
        \<lbrakk>alive (player c); e_alive (enemy c);
         player_turn c ins (show_status c w) = (r1, c1, ins1, w1); r1 \<noteq> Return None\<rbrakk>
        \<Longrightarrow> P c w c1 w1"
    and enemy_dead: "\<And>c ins w res c1 ins1 w1.
        \<lbrakk>alive (player c); e_alive (enemy c);
         player_turn c ins (show_status c w) = (Return res, c1, ins1, w1); res \<noteq> Some ''escaped'';
         \<not> e_alive (enemy (revert_defend c1))\<rbrakk>
        \<Longrightarrow> P c w (revert_defend c1) w1"
    and player_dead: "\<And>c ins w res c1 ins1 w1 c3 w3.
        \<lbrakk>alive (player c); e_alive (enemy c);
         player_turn c ins (show_status c w) = (Return res, c1, ins1, w1); res \<noteq> Some ''escaped'';
         e_alive (enemy (revert_defend c1)); enemy_turn (revert_defend c1) w1 = (c3, w3);
         \<not> alive (player c3)\<rbrakk>
        \<Longrightarrow> P c w c3 w3"
    and cycle: "\<And>c ins w res c1 ins1 w1 c3 w3 c' w'.
        \<lbrakk>alive (player c); e_alive (enemy c);
         player_turn c ins (show_status c w) = (Return res, c1, ins1, w1); res \<noteq> Some ''escaped'';
         e_alive (enemy (revert_defend c1)); enemy_turn (revert_defend c1) w1 = (c3, w3);
         alive (player c3); P (c3\<lparr>turn_count := turn_count c3 + 1\<rparr>) w3 c' w'\<rbrakk>
        \<Longrightarrow> P c w c' w'"
  shows "P c w c' w'"
  using run
proof (induction c ins w arbitrary: r c' ins' w' rule: run_loop.induct)
  case (1 c ins w)
  show ?case
  proof (cases "alive (player c) \<and> e_alive (enemy c)")
    case False
    with "1.prems" have "c' = c" "w' = w" by (simp_all add: run_loop.simps [of c])
    with stop show ?thesis by simp
  next
    case True
    then have ap: "alive (player c)" and ae: "e_alive (enemy c)" by simp_all
    obtain r1 c1 ins1 w1 where pt: "player_turn c ins (show_status c w) = (r1, c1, ins1, w1)"
      by (rule prod_cases4)
    show ?thesis
    proof (cases r1)
      case (Raise x)
      with "1.prems" True pt have "c' = c1" "w' = w1" by (simp_all add: run_loop.simps [of c])
      moreover from Raise have "r1 \<noteq> Return None" by simp
      ultimately show ?thesis using leave [OF ap ae pt] by simp
    next
      case (Return res)
      show ?thesis
      proof (cases "res = Some ''escaped''")
        case esc: True
        with "1.prems" True pt Return have "c' = c1" "w' = w1"
          by (simp_all add: run_loop.simps [of c])
        moreover from Return esc have "r1 \<noteq> Return None" by simp
        ultimately show ?thesis using leave [OF ap ae pt] by simp
      next
        case nesc: False
        note pt' = pt [unfolded Return]
        show ?thesis
        proof (cases "e_alive (enemy (revert_defend c1))")
          case False
          with "1.prems" True pt' nesc have "c' = revert_defend c1" "w' = w1"
            by (simp_all add: run_loop.simps [of c] Let_def)
          with enemy_dead [OF ap ae pt' nesc False] show ?thesis by simp
        next
          case ea: True
          obtain c3 w3 where et: "enemy_turn (revert_defend c1) w1 = (c3, w3)"
            by (cases "enemy_turn (revert_defend c1) w1")
          show ?thesis
          proof (cases "alive (player c3)")
            case False
            with "1.prems" True pt' nesc ea et have "c' = c3" "w' = w3"
              by (simp_all add: run_loop.simps [of c] Let_def)
            with player_dead [OF ap ae pt' nesc ea et False] show ?thesis by simp
          next
            case pa: True
            with "1.prems" True pt' nesc ea et
            have rl: "run_loop (c3\<lparr>turn_count := turn_count c3 + 1\<rparr>) ins1 w3 = (r, c', ins', w')"
              by (simp add: run_loop.simps [of c] Let_def)
            from ea have nn1: "\<not> \<not> e_alive (enemy (revert_defend c1))" by simp
            from pa have nn2: "\<not> \<not> alive (player c3)" by simp
            have "P (c3\<lparr>turn_count := turn_count c3 + 1\<rparr>) w3 c' w'"
              using "1.IH" [OF True pt [symmetric] Return refl refl nesc refl nn1 et [symmetric] nn2 rl] .
            with cycle [OF ap ae pt' nesc ea et pa] show ?thesis by simp
          qed
        qed
      qed
    qed
  qed
qed

section \<open>What a combat does to agility\<close>

lemma snares_append: "snares (xs @ ys) = snares xs + snares ys"
  by (induction xs rule: snares.induct) simp_all

lemma snared_add: "snared (m + n) a = snared n (snared m a)"
  by (induction m arbitrary: a) simp_all

lemma revert_defend_clean: "flags (player c) ''defend_tmp'' = None \<Longrightarrow> revert_defend c = c"
  by (simp add: revert_defend_def)

lemma player_attack_frame:
  "player_attack c w = (r, c1, w1) \<Longrightarrow>
     player c1 = player c \<and> snares (out w1) = snares (out w)"
  by (auto simp add: player_attack_def Let_def say_def roll_def randint_def random_random_def
      snares_append split: prod.splits if_splits)

lemma player_defend_frame:
  "player_defend c w = (r, c1, w1) \<Longrightarrow>
     r = None \<and> snares (out w1) = snares (out w) \<and> level (player c1) = level (player c)
     \<and> agility (player (revert_defend c1)) = agility (player c)
     \<and> flags (player (revert_defend c1)) ''defend_tmp'' = None"
  by (auto simp add: player_defend_def revert_defend_def Let_def say_def snares_append)

lemma player_special_frame:
  "player_special c w = (r, c1, w1) \<Longrightarrow>
     agility (player c1) = agility (player c) \<and> level (player c1) = level (player c)
     \<and> flags (player c1) = flags (player c) \<and> snares (out w1) = snares (out w)"
  by (auto simp add: player_special_def Let_def say_def roll_def randint_def modify_sanity_def
      snares_append split: prod.splits if_splits option.splits)

lemma use_frame:
  "use it p e = (ev, p1, e1) \<Longrightarrow>
     agility p1 = agility p \<and> level p1 = level p \<and> flags p1 = flags p \<and> snares [ev] = 0"
  by (auto simp add: use_def heal_potion_use_def sanity_potion_use_def fear_shard_use_def
      modify_health_def modify_sanity_def Let_def split: option.splits use_fn.splits if_splits)

lemma player_command_frame:
  assumes pc: "player_command choice c w = (r, c1, w1)" and clean: "flags (player c) ''defend_tmp'' = None"
  shows "snares (out w1) = snares (out w) \<and> level (player c1) = level (player c)
     \<and> agility (player (revert_defend c1)) = agility (player c)
     \<and> flags (player (revert_defend c1)) ''defend_tmp'' = None
     \<and> (r \<noteq> Return None \<longrightarrow> agility (player c1) = agility (player c)
                               \<and> flags (player c1) ''defend_tmp'' = None)"
proof (cases "split choice")
  case Nil
  with pc clean show ?thesis
    by (auto simp add: player_command_def revert_defend_clean)
next
  case (Cons t0 ts)
  note eqs = player_command_cases [OF Cons, where c = c and w = w]
  consider (attack) "lower t0 = ''attack''" | (defend) "lower t0 = ''defend''"
    | (use) "lower t0 = ''use''" | (inventory) "lower t0 = ''inventory''"
    | (special) "lower t0 = ''special''" | (stats) "lower t0 = ''stats''"
    | (run) "lower t0 = ''run''"
    | (other) "lower t0 \<notin> {''attack'', ''defend'', ''use'', ''inventory'', ''special'', ''stats'', ''run''}"
    by blast
  then show ?thesis
  proof cases
    case attack
    obtain r0 c0 w0 where pa: "player_attack c w = (r0, c0, w0)"
      by (cases "player_attack c w")
    from eqs(1) [OF attack] pa pc have "c1 = c0" "w1 = w0" by simp_all
    with player_attack_frame [OF pa] clean show ?thesis
      by (simp add: revert_defend_def)
  next
    case defend
    obtain r0 c0 w0 where pd: "player_defend c w = (r0, c0, w0)"
      by (cases "player_defend c w")
    from eqs(2) [OF defend] pd pc have "c1 = c0" "w1 = w0" "r = Return r0" by simp_all
    with player_defend_frame [OF pd] show ?thesis by simp
  next
    case use
    show ?thesis
    proof (cases "ts = []")
      case True
      from eqs(3) [OF use True] pc have "c1 = c" "w1 = say Use_what w" "r = Return None" by simp_all
      with clean show ?thesis by (simp add: say_def snares_append revert_defend_def)
    next
      case False
      obtain found rest where rm: "inventory_remove (join '' '' ts) (inventory (player c)) = (found, rest)"
        by (cases "inventory_remove (join '' '' ts) (inventory (player c))")
      show ?thesis
      proof (cases found)
        case None
        from eqs(4) [OF use False rm [unfolded None]] pc
        have "c1 = c\<lparr>player := (player c)\<lparr>inventory := rest\<rparr>\<rparr>"
          "w1 = say (No_such_item (join '' '' ts)) w" "r = Return None" by simp_all
        with clean show ?thesis by (simp add: say_def snares_append revert_defend_def)
      next
        case (Some it)
        obtain ev p' e' where u: "use it ((player c)\<lparr>inventory := rest\<rparr>) (Some (enemy c)) = (ev, p', e')"
          by (cases "use it ((player c)\<lparr>inventory := rest\<rparr>) (Some (enemy c))")
        from use_frame [OF u] clean
        have f: "agility p' = agility (player c)" "level p' = level (player c)"
            "flags p' ''defend_tmp'' = None" "snares [ev] = 0"
          by simp_all
        from eqs(5) [OF use False rm [unfolded Some] u] pc
        have "player c1 = p'" "w1 = say ev w" "r = Return None" by auto
        with f show ?thesis by (simp add: say_def snares_append revert_defend_def)
      qed
    qed
  next
    case inventory
    from eqs(6) [OF inventory] pc
    have "c1 = c" "w1 = say (inventory_list (inventory (player c))) w" "r = Return None" by simp_all
    with clean show ?thesis
      by (simp add: say_def snares_append revert_defend_def inventory_list_def)
  next
    case special
    from eqs(7) [OF special] pc have "player_special c w = (r, c1, w1)" by simp
    from player_special_frame [OF this] clean show ?thesis
      by (simp add: revert_defend_def)
  next
    case stats
    from eqs(8) [OF stats] pc
    have "c1 = c" "w1 = say (Player_status (player c)) w" "r = Return None" by simp_all
    with clean show ?thesis by (simp add: say_def snares_append revert_defend_def)
  next
    case run
    from player_command_run [OF Cons run, of c w] pc
    have "c1 = c" "snares (out w1) = snares (out w)" by (auto simp add: snares_append)
    with clean show ?thesis by (simp add: revert_defend_def)
  next
    case other
    from player_command_other [OF Cons other, of c w] pc
    have "c1 = c" "w1 = say Not_valid_command w" "r = Return None" by simp_all
    with clean show ?thesis by (simp add: say_def snares_append revert_defend_def)
  qed
qed

lemma player_turn_frame:
  assumes pt: "player_turn c ins w = (r, c1, ins1, w1)" and clean: "flags (player c) ''defend_tmp'' = None"
  shows "snares (out w1) = snares (out w) \<and> level (player c1) = level (player c)
     \<and> agility (player (revert_defend c1)) = agility (player c)
     \<and> flags (player (revert_defend c1)) ''defend_tmp'' = None
     \<and> (r \<noteq> Return None \<longrightarrow> agility (player c1) = agility (player c)
                               \<and> flags (player c1) ''defend_tmp'' = None)"
proof (cases ins)
  case Nil
  with pt clean show ?thesis
    by (auto simp add: player_turn.simps prompt_def say_def snares_append revert_defend_def)
next
  case (Cons line rest)
  let ?w0 = "say (Prompt_text ''What do you do? (type command)'') (say Options_line w)"
  from pt Cons have "player_command (strip line) c ?w0 = (r, c1, w1)"
    by (simp add: player_turn.simps prompt_def split: prod.splits)
  from player_command_frame [OF this clean] show ?thesis
    by (simp add: say_def snares_append)
qed

lemma enemy_turn_frame:
  assumes "enemy_turn c w = (c3, w3)"
  shows "\<exists>n. snares (out w3) = snares (out w) + n
           \<and> agility (player c3) = snared n (agility (player c))
           \<and> level (player c3) = level (player c) \<and> flags (player c3) = flags (player c)"
proof -
  have bellow: "\<And>e p. snares [fst (nightmare_bellow e p)] = 0
      \<and> agility (snd (nightmare_bellow e p)) = agility p
      \<and> level (snd (nightmare_bellow e p)) = level p \<and> flags (snd (nightmare_bellow e p)) = flags p"
    by (simp add: nightmare_bellow_def modify_sanity_def Let_def)
  have snare: "\<And>e p. snares [fst (dream_snare e p)] = 1
      \<and> agility (snd (dream_snare e p)) = snared 1 (agility p)
      \<and> level (snd (dream_snare e p)) = level p \<and> flags (snd (dream_snare e p)) = flags p"
    by (simp add: dream_snare_def Let_def)
  have eff: "\<And>m e p. \<exists>n. snares [fst (effect m e p)] = n
      \<and> agility (snd (effect m e p)) = snared n (agility p)
      \<and> level (snd (effect m e p)) = level p \<and> flags (snd (effect m e p)) = flags p"
  proof -
    fix m e p
    show "\<exists>n. snares [fst (effect m e p)] = n
      \<and> agility (snd (effect m e p)) = snared n (agility p)
      \<and> level (snd (effect m e p)) = level p \<and> flags (snd (effect m e p)) = flags p"
    proof (cases m)
      case Nightmare_bellow
      with bellow [of e p] show ?thesis by (simp add: effect_def)
    next
      case Dream_snare
      with snare [of e p] show ?thesis by (simp add: effect_def)
    qed
  qed
  have atk: "\<And>e p w ev p' w'. attack_player e p w = (ev, p', w') \<Longrightarrow>
      snares [ev] = 0 \<and> agility p' = agility p \<and> level p' = level p \<and> flags p' = flags p
      \<and> out w' = out w"
    by (auto simp add: attack_player_def Let_def roll_def randint_def random_random_def
        modify_health_def split: prod.splits if_splits)
  show ?thesis
  proof (cases "\<not> e_alive (enemy c) \<or> rewrite_effects c ''enemy_miss_next'' = Some True")
    case True
    with assms have "snares (out w3) = snares (out w) + 0
           \<and> agility (player c3) = snared 0 (agility (player c))
           \<and> level (player c3) = level (player c) \<and> flags (player c3) = flags (player c)"
      by (auto simp add: enemy_turn_def say_def snares_append split: if_splits)
    then show ?thesis by blast
  next
    case False
    define go_w where "go_w = (if special (enemy c) \<noteq> []
                         then (let (r, w') = roll 100 w in (r < 30, w'))
                         else (False, w))"
    obtain go wa where gw: "go_w = (go, wa)" by (cases go_w)
    have wa: "out wa = out w"
      using gw by (auto simp add: go_w_def roll_def randint_def Let_def split: if_splits)
    define sm where "sm = (if go then special_move (enemy c) (player c) wa else (None, wa))"
    obtain res wb where sm_eq: "sm = (res, wb)" by (cases sm)
    have wb: "out wb = out w"
      using sm_eq wa
      by (auto simp add: sm_def special_move_def random_choice_def Let_def split: if_splits prod.splits)
    from assms False gw sm_eq
    have et: "(c3, w3) = (case res of
                 Some (text, p') \<Rightarrow> (c\<lparr>player := p'\<rparr>, say text wb)
               | None \<Rightarrow> (case attack_player (enemy c) (player c) wb of
                            (text, p', w3) \<Rightarrow> (c\<lparr>player := p'\<rparr>, say text w3)))"
      by (simp add: enemy_turn_def go_w_def [symmetric] sm_def [symmetric] Let_def)
    show ?thesis
    proof (cases res)
      case None
      obtain ev p' w' where a: "attack_player (enemy c) (player c) wb = (ev, p', w')"
        by (cases "attack_player (enemy c) (player c) wb")
      from et None a have "c3 = c\<lparr>player := p'\<rparr>" "w3 = say ev w'" by simp_all
      with atk [OF a] wb
      have "snares (out w3) = snares (out w) + 0
           \<and> agility (player c3) = snared 0 (agility (player c))
           \<and> level (player c3) = level (player c) \<and> flags (player c3) = flags (player c)"
        by (simp add: say_def snares_append)
      then show ?thesis by blast
    next
      case (Some tp)
      obtain msg p' where tp: "tp = (msg, p')" by (cases tp)
      from sm_eq Some tp have "\<exists>m. effect m (enemy c) (player c) = (msg, p')"
        by (auto simp add: sm_def special_move_def random_choice_def Let_def split: if_splits prod.splits)
      then obtain m where "effect m (enemy c) (player c) = (msg, p')" ..
      then have m: "msg = fst (effect m (enemy c) (player c))"
          "p' = snd (effect m (enemy c) (player c))"
        by simp_all
      from eff [of m "enemy c" "player c"] m obtain n where
        n: "snares [msg] = n" "agility p' = snared n (agility (player c))"
           "level p' = level (player c)" "flags p' = flags (player c)"
        by auto
      from et Some tp have "c3 = c\<lparr>player := p'\<rparr>" "w3 = say msg wb" by simp_all
      with n wb
      have "snares (out w3) = snares (out w) + n
           \<and> agility (player c3) = snared n (agility (player c))
           \<and> level (player c3) = level (player c) \<and> flags (player c3) = flags (player c)"
        by (simp add: say_def snares_append)
      then show ?thesis by blast
    qed
  qed
qed

lemma snares_level_ups: "snares (map Level_up ls) = 0"
  by (induction ls) simp_all

lemma run_loop_frame:
  assumes "run_loop c ins w = (r, c', ins', w')"
  shows "flags (player c) ''defend_tmp'' = None \<longrightarrow>
     (\<exists>n. snares (out w') = snares (out w) + n
         \<and> agility (player c') = snared n (agility (player c))
         \<and> level (player c') = level (player c)
         \<and> flags (player c') ''defend_tmp'' = None)"
    (is "?P c w c' w'")
proof (rule run_loop_cycles [OF assms, where P = ?P])
  fix c :: combat and w :: world
  show "?P c w c w"
  proof
    assume "flags (player c) ''defend_tmp'' = None"
    then have "snares (out w) = snares (out w) + 0 \<and> agility (player c) = snared 0 (agility (player c))
        \<and> level (player c) = level (player c) \<and> flags (player c) ''defend_tmp'' = None"
      by simp
    then show "\<exists>n. snares (out w) = snares (out w) + n \<and> agility (player c) = snared n (agility (player c))
        \<and> level (player c) = level (player c) \<and> flags (player c) ''defend_tmp'' = None"
      by blast
  qed
next
  fix c ins w r1 c1 ins1 w1
  assume pt: "player_turn c ins (show_status c w) = (r1, c1, ins1, w1)" and nn: "r1 \<noteq> Return None"
  show "?P c w c1 w1"
  proof
    assume clean: "flags (player c) ''defend_tmp'' = None"
    from player_turn_frame [OF pt clean] nn
    have "snares (out w1) = snares (out w) + 0 \<and> agility (player c1) = snared 0 (agility (player c))
        \<and> level (player c1) = level (player c) \<and> flags (player c1) ''defend_tmp'' = None"
      by (simp add: show_status_def say_def snares_append)
    then show "\<exists>n. snares (out w1) = snares (out w) + n \<and> agility (player c1) = snared n (agility (player c))
        \<and> level (player c1) = level (player c) \<and> flags (player c1) ''defend_tmp'' = None"
      by blast
  qed
next
  fix c ins w res c1 ins1 w1
  assume pt: "player_turn c ins (show_status c w) = (Return res, c1, ins1, w1)"
  show "?P c w (revert_defend c1) w1"
  proof
    assume clean: "flags (player c) ''defend_tmp'' = None"
    have lv: "level (player (revert_defend c1)) = level (player c1)"
      by (simp add: revert_defend_def split: option.splits)
    from player_turn_frame [OF pt clean] lv
    have "snares (out w1) = snares (out w) + 0
        \<and> agility (player (revert_defend c1)) = snared 0 (agility (player c))
        \<and> level (player (revert_defend c1)) = level (player c)
        \<and> flags (player (revert_defend c1)) ''defend_tmp'' = None"
      by (simp add: show_status_def say_def snares_append)
    then show "\<exists>n. snares (out w1) = snares (out w) + n
        \<and> agility (player (revert_defend c1)) = snared n (agility (player c))
        \<and> level (player (revert_defend c1)) = level (player c)
        \<and> flags (player (revert_defend c1)) ''defend_tmp'' = None"
      by blast
  qed
next
  fix c ins w res c1 ins1 w1 c3 w3
  assume pt: "player_turn c ins (show_status c w) = (Return res, c1, ins1, w1)"
    and et: "enemy_turn (revert_defend c1) w1 = (c3, w3)"
  show "?P c w c3 w3"
  proof
    assume clean: "flags (player c) ''defend_tmp'' = None"
    have lv: "level (player (revert_defend c1)) = level (player c1)"
      by (simp add: revert_defend_def split: option.splits)
    from enemy_turn_frame [OF et] obtain n where
      n: "snares (out w3) = snares (out w1) + n"
         "agility (player c3) = snared n (agility (player (revert_defend c1)))"
         "level (player c3) = level (player (revert_defend c1))"
         "flags (player c3) = flags (player (revert_defend c1))"
      by blast
    from player_turn_frame [OF pt clean] lv n
    have "snares (out w3) = snares (out w) + n
        \<and> agility (player c3) = snared n (agility (player c))
        \<and> level (player c3) = level (player c)
        \<and> flags (player c3) ''defend_tmp'' = None"
      by (simp add: show_status_def say_def snares_append)
    then show "\<exists>n. snares (out w3) = snares (out w) + n
        \<and> agility (player c3) = snared n (agility (player c))
        \<and> level (player c3) = level (player c)
        \<and> flags (player c3) ''defend_tmp'' = None"
      by blast
  qed
next
  fix c ins w res c1 ins1 w1 c3 w3 c' w'
  assume pt: "player_turn c ins (show_status c w) = (Return res, c1, ins1, w1)"
    and et: "enemy_turn (revert_defend c1) w1 = (c3, w3)"
    and ih: "?P (c3\<lparr>turn_count := turn_count c3 + 1\<rparr>) w3 c' w'"
  show "?P c w c' w'"
  proof
    assume clean: "flags (player c) ''defend_tmp'' = None"
    have lv: "level (player (revert_defend c1)) = level (player c1)"
      by (simp add: revert_defend_def split: option.splits)
    from enemy_turn_frame [OF et] obtain n where
      n: "snares (out w3) = snares (out w1) + n"
         "agility (player c3) = snared n (agility (player (revert_defend c1)))"
         "level (player c3) = level (player (revert_defend c1))"
         "flags (player c3) = flags (player (revert_defend c1))"
      by blast
    from player_turn_frame [OF pt clean] lv n
    have one: "snares (out w3) = snares (out w) + n"
        "agility (player c3) = snared n (agility (player c))"
        "level (player c3) = level (player c)"
        "flags (player c3) ''defend_tmp'' = None"
      by (simp_all add: show_status_def say_def snares_append)
    from ih one(4) obtain m where
      m: "snares (out w') = snares (out w3) + m"
         "agility (player c') = snared m (agility (player c3))"
         "level (player c') = level (player c3)"
         "flags (player c') ''defend_tmp'' = None"
      by auto
    from one m
    have "snares (out w') = snares (out w) + (n + m)
        \<and> agility (player c') = snared (n + m) (agility (player c))
        \<and> level (player c') = level (player c)
        \<and> flags (player c') ''defend_tmp'' = None"
      by (simp add: snared_add)
    then show "\<exists>n. snares (out w') = snares (out w) + n
        \<and> agility (player c') = snared n (agility (player c))
        \<and> level (player c') = level (player c)
        \<and> flags (player c') ''defend_tmp'' = None"
      by blast
  qed
qed

lemma gain_xp_frame:
  assumes "gain_xp amount p = (p1, evs)"
  shows "agility p1 = agility p + (level p1 - level p) \<and> level p \<le> level p1 \<and> snares evs = 0
       \<and> flags p1 = flags p"
proof -
  from assms have l: "level_ups (p\<lparr>xp := xp p + amount\<rparr>) = (p1, evs)"
    by (simp add: gain_xp_def)
  from level_ups_spec [OF l] level_ups_frame [OF l] level_ups_events [OF l] show ?thesis
    by (simp add: snares_level_ups)
qed

lemma run_frame:
  assumes run: "run c ins w = (r, c', ins', w')" and clean: "flags (player c) ''defend_tmp'' = None"
  shows "snares (out w) \<le> snares (out w') \<and> level (player c) \<le> level (player c')
       \<and> agility (player c')
           = snared (snares (out w') - snares (out w)) (agility (player c))
             + (level (player c') - level (player c))"
proof -
  obtain r0 c0 ins0 w0 where rl: "run_loop c ins w = (r0, c0, ins0, w0)"
    by (rule prod_cases4)
  from run_loop_frame [OF rl] clean obtain n where
    n: "snares (out w0) = snares (out w) + n" "agility (player c0) = snared n (agility (player c))"
       "level (player c0) = level (player c)"
    by blast
  have post: "snares (out w') = snares (out w0) \<and> level (player c0) \<le> level (player c')
      \<and> agility (player c') = agility (player c0) + (level (player c') - level (player c0))"
  proof (cases r0)
    case (Some x)
    with run rl show ?thesis by (simp add: run_def)
  next
    case None
    show ?thesis
    proof (cases "alive (player c0)")
      case False
      with run rl None show ?thesis by (auto simp add: run_def say_def snares_append)
    next
      case pa: True
      show ?thesis
      proof (cases "e_alive (enemy c0)")
        case True
        with run rl None pa show ?thesis by (simp add: run_def)
      next
        case False
        obtain p1 evs where gx: "gain_xp (20 * difficulty (enemy c0) + shd (dice w0)) (player c0) = (p1, evs)"
          by (cases "gain_xp (20 * difficulty (enemy c0) + shd (dice w0)) (player c0)")
        from run rl None pa False gx
        have "player c' = p1 \<or> (\<exists>it. player c' = p1\<lparr>inventory := inventory_add it (inventory p1)\<rparr>)"
          and "snares (out w') = snares (out w0) + snares evs"
          by (auto simp add: run_def Let_def roll_def randint_def random_choice_def
              say_def snares_append split: prod.splits if_splits option.splits)
        with gain_xp_frame [OF gx] show ?thesis
          by auto
      qed
    qed
  qed
  from n post show ?thesis by simp
qed

text \<open>
  C10. \<open>dream_snare\<close> lowers the player's agility by 2, but not below 1, and leaves the rest
  of the player as it is. Nothing in \<open>Combat.run\<close> restores it: when \<open>run\<close> returns, from
  a player with no defend boost pending and stats within \<open>2 ^ 53\<close>, the player's agility is
  the agility at the start lowered once for each snare narrated during the combat, plus 1
  for each level gained at its end. The player of the next encounter is this player, with
  this agility.
\<close>

theorem dream_snare_persists:
  assumes "flags (player c) ''defend_tmp'' = None"
    and "\<bar>strength (player c)\<bar> \<le> 2 ^ 53" and "\<bar>agility (player c)\<bar> \<le> 2 ^ 53"
    and "\<bar>magic (player c)\<bar> \<le> 2 ^ 53"
    and "\<bar>e_strength (enemy c)\<bar> \<le> 2 ^ 53" and "\<bar>e_agility (enemy c)\<bar> \<le> 2 ^ 53"
    and "run c ins w = (r, c', ins', w')"
  shows "dream_snare e p = (Snare_text (e_name e) 2, p\<lparr>agility := max 1 (agility p - 2)\<rparr>)
       \<and> 1 \<le> agility (snd (dream_snare e p))
       \<and> (3 \<le> agility p \<longrightarrow> agility (snd (dream_snare e p)) = agility p - 2)
       \<and> snares (out w) \<le> snares (out w') \<and> level (player c) \<le> level (player c')
       \<and> agility (player c')
           = snared (snares (out w') - snares (out w)) (agility (player c))
             + (level (player c') - level (player c))"
proof -
  have "dream_snare e p = (Snare_text (e_name e) 2, p\<lparr>agility := max 1 (agility p - 2)\<rparr>)
       \<and> 1 \<le> agility (snd (dream_snare e p))
       \<and> (3 \<le> agility p \<longrightarrow> agility (snd (dream_snare e p)) = agility p - 2)"
    by (simp add: dream_snare_def Let_def)
  with run_frame [OF assms(7) assms(1)] show ?thesis by simp
qed

theorem dream_snare_persists_witness:
  "flags (new_player ''Tester'' night_surgeon) ''defend_tmp'' = None
   \<and> agility (new_player ''Tester'' night_surgeon) = 6
   \<and> agility (snd (dream_snare Somber_Vendor (new_player ''Tester'' night_surgeon))) = 4
   \<and> fst (run (new_combat (new_player ''Tester'' night_surgeon) Somber_Vendor) [''stats'', ''run'']
            (fixed_world [10, 20, 1])) = Return (Some ''escaped'')
   \<and> snares (out (snd (snd (snd (run (new_combat (new_player ''Tester'' night_surgeon) Somber_Vendor)
            [''stats'', ''run''] (fixed_world [10, 20, 1])))))) = 1
   \<and> snared 1 6 = 4
   \<and> level (player (fst (snd (run (new_combat (new_player ''Tester'' night_surgeon) Somber_Vendor)
            [''stats'', ''run''] (fixed_world [10, 20, 1]))))) = 1
   \<and> agility (player (fst (snd (run (new_combat (new_player ''Tester'' night_surgeon) Somber_Vendor)
            [''stats'', ''run''] (fixed_world [10, 20, 1]))))) = 4
   \<and> agility (player (new_combat
        (player (fst (snd (run (new_combat (new_player ''Tester'' night_surgeon) Somber_Vendor)
            [''stats'', ''run''] (fixed_world [10, 20, 1])))))
        Token_Thief)) = 4"
proof -
  let ?p = "new_player ''Tester'' night_surgeon"
  let ?c = "new_combat ?p Somber_Vendor"
  let ?w = "fixed_world [10, 20, 1]"
  have h1: "flags (player ?c) ''defend_tmp'' = None"
    and h2: "\<bar>strength (player ?c)\<bar> \<le> 2 ^ 53" and h3: "\<bar>agility (player ?c)\<bar> \<le> 2 ^ 53"
    and h4: "\<bar>magic (player ?c)\<bar> \<le> 2 ^ 53"
    and h5: "\<bar>e_strength (enemy ?c)\<bar> \<le> 2 ^ 53" and h6: "\<bar>e_agility (enemy ?c)\<bar> \<le> 2 ^ 53"
    by (simp_all add: new_combat_def new_player_def night_surgeon_def Somber_Vendor_def new_enemy_def)
  have rn: "run ?c [''stats'', ''run''] ?w
      = (Return (Some ''escaped''), ?c\<lparr>player := ?p\<lparr>agility := 4\<rparr>, turn_count := 1\<rparr>, [],
         \<lparr>dice = sconst 1, fracs = sconst 0, picks = stl (sconst 0),
          out = [Combat_banner ''Tester'' ''Somber Vendor'', Player_status ?p,
                 Enemy_hp_line ''Somber Vendor'' 40 40, Options_line,
                 Prompt_text ''What do you do? (type command)'', Player_status ?p,
                 Snare_text ''Somber Vendor'' 2,
                 Combat_banner ''Tester'' ''Somber Vendor'', Player_status (?p\<lparr>agility := 4\<rparr>),
                 Enemy_hp_line ''Somber Vendor'' 40 40, Options_line,
                 Prompt_text ''What do you do? (type command)'', Escape_ok]\<rparr>)"
    by (simp add: run_def run_loop.simps player_turn.simps prompt_def player_command_def
       revert_defend_def enemy_turn_def special_move_def random_choice_def effect_def dream_snare_def
       strip_def split_def isspace_def lower_def lower_char_def Let_def
       roll_def randint_def say_def show_status_def py_int_def
       new_combat_def new_player_def night_surgeon_def Somber_Vendor_def new_enemy_def fixed_world_def)
  have vals: "flags ?p ''defend_tmp'' = None \<and> agility ?p = 6 \<and> level ?p = 1"
    by (simp add: new_player_def night_surgeon_def)
  have pc: "player ?c = ?p" by (simp add: new_combat_def)
  have res: "fst (run ?c [''stats'', ''run''] ?w) = Return (Some ''escaped'')"
    "snares (out (snd (snd (snd (run ?c [''stats'', ''run''] ?w))))) = 1"
    "level (player (fst (snd (run ?c [''stats'', ''run''] ?w)))) = 1"
    "agility (player (fst (snd (run ?c [''stats'', ''run''] ?w)))) = 4"
    unfolding rn by (simp_all add: new_player_def night_surgeon_def)
  have nxt: "agility (player (new_combat (player (fst (snd (run ?c [''stats'', ''run''] ?w)))) Token_Thief)) = 4"
    unfolding rn by (simp add: new_combat_def)
  from dream_snare_persists [OF h1 h2 h3 h4 h5 h6 rn, of Somber_Vendor ?p] vals res nxt
  show ?thesis
    by simp
qed

section \<open>The rewritten rule\<close>





















end
